theory Spec2Isabelle
  imports Main
begin

section \<open>Data model\<close>

text \<open>
  The worker keeps its VM records in one module-level \<^verbatim>\<open>Map<string, VM>\<close> named
  \<^verbatim>\<open>activeVMs\<close>. A record is a mutable JavaScript object, and the same object is
  stored under two keys (the id and \<^verbatim>\<open>working-vm-${id}\<close>), so the model has an
  explicit heap: \<open>activeVMs\<close> maps a key to an address and \<open>heap\<close> maps an address to
  the fields of the object. Mutating a record through one key is then visible through
  every other key that holds the same address, as in the source.

  The repository holds several variants of the worker. They are modelled where they
  differ: \<^verbatim>\<open>src/src/index.ts\<close> (names as in the source), \<^verbatim>\<open>src/unnamed/part_000\<close>
  (suffix \<open>_p0\<close>), \<^verbatim>\<open>src/unnamed/part_001\<close> (suffix \<open>_p1\<close>),
  \<^verbatim>\<open>src/createGoogleCloudVM_fixed.js\<close> (suffix \<open>_fixed\<close>) and
  \<^verbatim>\<open>src/src/enhanced-index.ts\<close> (suffix \<open>_enh\<close>).

  Optional string fields (\<^verbatim>\<open>containerId?: string\<close>) are \<open>string option\<close>, with
  \<open>None\<close> for \<^verbatim>\<open>undefined\<close>/\<^verbatim>\<open>null\<close>. The fields \<^verbatim>\<open>metadata\<close> and \<^verbatim>\<open>network\<close> of
  the interface are never written or read by the operations modelled here and are left
  out. Request fields are modelled at the types the interface declares for them.
\<close>

datatype vm_status = Initializing | Ready | Running | Stopped | Error

record VM =
  vm_id :: string
  name :: string
  status :: vm_status
  containerId :: "string option"
  novncUrl :: "string option"
  agentUrl :: "string option"
  originAgentUrl :: "string option"
  originNoVncUrl :: "string option"
  publicIp :: "string option"
  chromeVersion :: "string option"
  nodeVersion :: "string option"
  createdAt :: string
  lastActivity :: "string option"
  instanceType :: "string option"
  memory :: "string option"
  cpu :: "string option"
  storage :: "string option"
  serverId :: "string option"
  serverName :: "string option"
  region :: "string option"
  createdVia :: "string option"
  error :: "string option"

type_synonym ref = nat

record store =
  heap :: "ref \<Rightarrow> VM"
  activeVMs :: "string \<rightharpoonup> ref"
  nextRef :: ref

text \<open>JavaScript truthiness of an optional string: defined and not the empty string.\<close>

fun truthy :: "string option \<Rightarrow> bool" where
  "truthy None = False"
| "truthy (Some s) = (s \<noteq> [])"

text \<open>\<^verbatim>\<open>a || b\<close> on an optional string and a string.\<close>

fun or_else :: "string option \<Rightarrow> string \<Rightarrow> string" where
  "or_else None d = d"
| "or_else (Some s) d = (if s = [] then d else s)"

text \<open>\<^verbatim>\<open>a || b\<close> on two optional strings.\<close>

definition or_opt :: "string option \<Rightarrow> string option \<Rightarrow> string option" where
  "or_opt a b = (if truthy a then a else b)"

definition blankVM :: VM where
  "blankVM = \<lparr>vm_id = [], name = [], status = Initializing, containerId = None,
     novncUrl = None, agentUrl = None, originAgentUrl = None, originNoVncUrl = None,
     publicIp = None, chromeVersion = None, nodeVersion = None, createdAt = [],
     lastActivity = None, instanceType = None, memory = None, cpu = None,
     storage = None, serverId = None, serverName = None, region = None,
     createdVia = None, error = None\<rparr>"

text \<open>The store of a freshly started worker: no key, no object allocated.\<close>

definition empty_store :: store where
  "empty_store = \<lparr>heap = (\<lambda>_. blankVM), activeVMs = Map.empty, nextRef = 0\<rparr>"

text \<open>An object literal: a new address holding the given fields.\<close>

definition alloc :: "VM \<Rightarrow> store \<Rightarrow> ref \<times> store" where
  "alloc v s = (nextRef s, s\<lparr>heap := (heap s)(nextRef s := v), nextRef := Suc (nextRef s)\<rparr>)"

section \<open>Record store (src/src/index.ts)\<close>

text \<open>The alias key \<^verbatim>\<open>`working-vm-${vmId}`\<close>.\<close>

definition aliasKey :: "string \<Rightarrow> string" where
  "aliasKey vmId = ''working-vm-'' @ vmId"

text \<open>
  \<^verbatim>\<open>storeVM(vm, env)\<close>: sets the key \<^verbatim>\<open>vm.id\<close> and the alias key to the object.
\<close>

definition storeVM :: "ref \<Rightarrow> store \<Rightarrow> store" where
  "storeVM r s =
     (let i = vm_id (heap s r) in
      s\<lparr>activeVMs := (activeVMs s)(i \<mapsto> r, aliasKey i \<mapsto> r)\<rparr>)"

text \<open>
  \<^verbatim>\<open>activeVMs.get(vmId) || activeVMs.get(`working-vm-${vmId}`)\<close>: an object is always
  truthy, so the alias is read only when the primary key is absent.
\<close>

definition lookupVM :: "store \<Rightarrow> string \<Rightarrow> ref option" where
  "lookupVM s vmId =
     (case activeVMs s vmId of Some r \<Rightarrow> Some r | None \<Rightarrow> activeVMs s (aliasKey vmId))"

definition workerBase :: string where
  "workerBase = ''https://chrome-vm-workers.mgmt-5e1.workers.dev''"

text \<open>
  The placeholder record of \<^verbatim>\<open>getVMFromStorage\<close>; \<open>t1\<close> and \<open>t2\<close> are the two readings
  of the clock in the object literal.
\<close>

definition mockVM :: "string \<Rightarrow> string \<Rightarrow> string \<Rightarrow> VM" where
  "mockVM vmId t1 t2 =
     \<lparr>vm_id = vmId, name = ''Mock VM '' @ vmId, status = Ready,
      containerId = Some (''mock-container-'' @ vmId),
      novncUrl = Some (workerBase @ ''/vms/'' @ vmId @ ''/novnc''),
      agentUrl = Some (workerBase @ ''/vms/'' @ vmId @ ''/agent''),
      originAgentUrl = None, originNoVncUrl = None,
      publicIp = Some ''cloudflare-edge-ip'',
      chromeVersion = Some ''120.0.0.0'', nodeVersion = Some ''18.19.0'',
      createdAt = t1, lastActivity = Some t2,
      instanceType = Some ''t3.medium'',
      memory = Some ''512MB'', cpu = Some ''0.5 vCPU'', storage = Some ''1GB'',
      serverId = Some ''default-cloud-server'', serverName = Some ''Cloudflare Workers'',
      region = Some ''global'', createdVia = Some ''cloudflare-workers'', error = None\<rparr>"

text \<open>
  \<^verbatim>\<open>getVMFromStorage(vmId, env)\<close>: primary key, then alias key, then a placeholder
  record that is stored and returned. The declared result type is \<^verbatim>\<open>VM | null\<close>, but
  no path of the function in \<^verbatim>\<open>index.ts\<close> returns \<^verbatim>\<open>null\<close>; the model keeps the option
  so that the callers' \<^verbatim>\<open>if (!vm)\<close> branches can be written down.
\<close>

definition getVMFromStorage :: "string \<Rightarrow> string \<Rightarrow> string \<Rightarrow> store \<Rightarrow> ref option \<times> store" where
  "getVMFromStorage vmId t1 t2 s =
     (case activeVMs s vmId of
        Some r \<Rightarrow> (Some r, s)
      | None \<Rightarrow>
          (case activeVMs s (aliasKey vmId) of
             Some r \<Rightarrow> (Some r, s)
           | None \<Rightarrow>
               (let (r, s1) = alloc (mockVM vmId t1 t2) s in (Some r, storeVM r s1))))"

section \<open>Responses\<close>

datatype body =
    ErrorBody string
  | ErrorMessageBody string string
  | VMBody VM
  | CreatedBody string vm_status
  | DeletedBody string
  | SuccessBody string
  | HtmlBody VM
  | AgentInfoBody string vm_status
  | UpstreamBody string
  | OtherBody string

record response =
  code :: nat
  contentType :: string
  content :: body

definition json :: "nat \<Rightarrow> body \<Rightarrow> response" where
  "json c b = \<lparr>code = c, contentType = ''application/json'', content = b\<rparr>"

text \<open>\<^verbatim>\<open>handleGetVM\<close>: the record as JSON, 404 when the lookup yields nothing.\<close>

definition handleGetVM :: "string \<Rightarrow> string \<Rightarrow> string \<Rightarrow> store \<Rightarrow> response \<times> store" where
  "handleGetVM vmId t1 t2 s =
     (case getVMFromStorage vmId t1 t2 s of
        (None, s1) \<Rightarrow> (json 404 (ErrorBody ''VM not found''), s1)
      | (Some r, s1) \<Rightarrow> (json 200 (VMBody (heap s1 r)), s1))"

text \<open>
  \<^verbatim>\<open>handleGetVM\<close> of \<^verbatim>\<open>enhanced-index.ts\<close>, which reads the two keys itself and
  builds no placeholder.
\<close>

definition handleGetVM_enh :: "string \<Rightarrow> store \<Rightarrow> response" where
  "handleGetVM_enh vmId s =
     (case lookupVM s vmId of
        None \<Rightarrow> json 404 (ErrorBody ''VM not found'')
      | Some r \<Rightarrow> json 200 (VMBody (heap s r)))"

text \<open>
  \<^verbatim>\<open>handleDeleteVM\<close>: 404 when neither key is present; else the object's status
  becomes \<^verbatim>\<open>stopped\<close> and the keys \<^verbatim>\<open>vmId\<close> and \<^verbatim>\<open>working-vm-${vmId}\<close> are deleted.
\<close>

definition handleDeleteVM :: "string \<Rightarrow> store \<Rightarrow> response \<times> store" where
  "handleDeleteVM vmId s =
     (case lookupVM s vmId of
        None \<Rightarrow> (json 404 (ErrorBody ''VM not found''), s)
      | Some r \<Rightarrow>
          (json 200 (DeletedBody vmId),
           s\<lparr>heap := (heap s)(r := (heap s r)\<lparr>status := Stopped\<rparr>),
             activeVMs := ((activeVMs s)(vmId := None))(aliasKey vmId := None)\<rparr>))"

section \<open>Upstream network calls\<close>

text \<open>
  The handlers call the platform's \<^verbatim>\<open>fetch\<close>. What the network answers is an input of
  the model: \<open>net\<close> maps the request to either the message of the error the promise is
  rejected with (\<open>Inl\<close>) or the response (\<open>Inr\<close>). Every handler also returns the list
  of the requests it has issued, so that "no network call" is a statement about that
  list. \<open>resp_json\<close> is what \<^verbatim>\<open>resp.json()\<close> yields: the parsed object as a list of
  string fields, or the message of the error it throws.
\<close>

datatype payload =
    RawText string
  | RailwayCreate string "string option"
  | DockerCreate string string string string string string

record upstream_request =
  req_url :: string
  req_method :: string
  req_headers :: "(string \<times> string) list"
  req_body :: "payload option"

record http_response =
  resp_status :: nat
  resp_contentType :: "string option"
  resp_text :: string
  resp_json :: "string + (string \<times> string) list"

type_synonym network = "upstream_request \<Rightarrow> string + http_response"

text \<open>\<^verbatim>\<open>resp.ok\<close> of the Fetch API: the status is in the range 200 to 299.\<close>

definition ok :: "http_response \<Rightarrow> bool" where
  "ok resp = (200 \<le> resp_status resp \<and> resp_status resp \<le> 299)"

text \<open>\<^verbatim>\<open>.replace(/\/$/, '')\<close>: one slash at the end of the string is removed.\<close>

definition stripSlash :: "string \<Rightarrow> string" where
  "stripSlash u = (if u \<noteq> [] \<and> last u = CHR ''/'' then butlast u else u)"

text \<open>
  \<^verbatim>\<open>await fetch(...).catch(() => {})\<close>: a rejection is turned into a fulfilled promise, so
  the \<^verbatim>\<open>await\<close> never throws.
\<close>

fun catchIgnore :: "string + http_response \<Rightarrow> string + http_response option" where
  "catchIgnore (Inl e) = Inr None"
| "catchIgnore (Inr resp) = Inr (Some resp)"

section \<open>Start and restart (src/src/index.ts)\<close>

definition restartSignal :: "string \<Rightarrow> upstream_request" where
  "restartSignal u =
     \<lparr>req_url = stripSlash u @ ''/browser/restart'', req_method = ''POST'',
      req_headers = [], req_body = None\<rparr>"

text \<open>
  \<^verbatim>\<open>handleStartVM\<close>: 404 when neither key is present; else the restart signal is sent
  when the record has an origin agent URL, the status becomes \<^verbatim>\<open>ready\<close>, the clock is
  written to \<^verbatim>\<open>lastActivity\<close> and the record is stored. The result is \<open>Inl\<close> when the
  handler throws.
\<close>

definition handleStartVM ::
  "string \<Rightarrow> string \<Rightarrow> network \<Rightarrow> store
     \<Rightarrow> (string + response) \<times> store \<times> upstream_request list" where
  "handleStartVM vmId now net s =
     (case lookupVM s vmId of
        None \<Rightarrow> (Inr (json 404 (ErrorBody ''VM not found'')), s, [])
      | Some r \<Rightarrow>
          (let vm = heap s r;
               u = (case originAgentUrl vm of None \<Rightarrow> [] | Some x \<Rightarrow> x);
               calls = (if truthy (originAgentUrl vm) then [restartSignal u] else []);
               awaited = (if truthy (originAgentUrl vm)
                          then catchIgnore (net (restartSignal u)) else Inr None)
           in case awaited of
                Inl e \<Rightarrow> (Inl e, s, calls)
              | Inr _ \<Rightarrow>
                  (let s1 = s\<lparr>heap := (heap s)(r := vm\<lparr>status := Ready, lastActivity := Some now\<rparr>)\<rparr>
                   in (Inr (json 200 (SuccessBody (''VM '' @ vmId @ '' started.''))),
                       storeVM r s1, calls))))"

text \<open>\<^verbatim>\<open>handleRestartVM\<close>: the same with the status \<^verbatim>\<open>initializing\<close>.\<close>

definition handleRestartVM ::
  "string \<Rightarrow> string \<Rightarrow> network \<Rightarrow> store
     \<Rightarrow> (string + response) \<times> store \<times> upstream_request list" where
  "handleRestartVM vmId now net s =
     (case lookupVM s vmId of
        None \<Rightarrow> (Inr (json 404 (ErrorBody ''VM not found'')), s, [])
      | Some r \<Rightarrow>
          (let vm = heap s r;
               u = (case originAgentUrl vm of None \<Rightarrow> [] | Some x \<Rightarrow> x);
               calls = (if truthy (originAgentUrl vm) then [restartSignal u] else []);
               awaited = (if truthy (originAgentUrl vm)
                          then catchIgnore (net (restartSignal u)) else Inr None)
           in case awaited of
                Inl e \<Rightarrow> (Inl e, s, calls)
              | Inr _ \<Rightarrow>
                  (let s1 = s\<lparr>heap := (heap s)(r := vm\<lparr>status := Initializing,
                                                          lastActivity := Some now\<rparr>)\<rparr>
                   in (Inr (json 200 (SuccessBody (''VM '' @ vmId @ '' restart initiated.''))),
                       storeVM r s1, calls))))"

section \<open>Action proxy (src/src/index.ts)\<close>

text \<open>The \<^verbatim>\<open>switch (action)\<close> of \<^verbatim>\<open>handleAgentProxy\<close>; \<open>None\<close> is its default branch.\<close>

definition upstreamPath :: "string \<Rightarrow> string option" where
  "upstreamPath action =
     (if action = ''browser/navigate'' then Some ''/browser/navigate''
      else if action = ''restart'' then Some ''/browser/restart''
      else if action = ''status'' then Some ''/health''
      else if action = ''execute'' then Some ''/run''
      else if action = ''screenshot'' then Some ''/run''
      else None)"

text \<open>
  \<^verbatim>\<open>handleAgentProxy(vmId, action, request, env, corsHeaders)\<close>; \<open>method\<close> and
  \<open>bodyText\<close> are the method and the body of the incoming request. The \<^verbatim>\<open>await fetch\<close>
  is not guarded: a rejection leaves the handler as an exception (\<open>Inl\<close>).
\<close>

definition handleAgentProxy ::
  "string \<Rightarrow> string \<Rightarrow> string \<Rightarrow> string \<Rightarrow> network \<Rightarrow> store
     \<Rightarrow> (string + response) \<times> upstream_request list" where
  "handleAgentProxy vmId action method bodyText net s =
     (case lookupVM s vmId of
        None \<Rightarrow> (Inr (json 404 (ErrorBody ''VM not found'')), [])
      | Some r \<Rightarrow>
          (case originAgentUrl (heap s r) of
             None \<Rightarrow> (Inr (json 400 (ErrorBody ''No upstream agent URL'')), [])
           | Some u \<Rightarrow>
               if u = [] then (Inr (json 400 (ErrorBody ''No upstream agent URL'')), [])
               else
                 (case upstreamPath action of
                    None \<Rightarrow> (Inr (json 400 (ErrorBody ''Unsupported agent action'')), [])
                  | Some p \<Rightarrow>
                      (let req = \<lparr>req_url = stripSlash u @ p, req_method = method,
                                  req_headers = [(''Content-Type'', ''application/json'')],
                                  req_body = (if method \<noteq> ''GET'' \<and> method \<noteq> ''HEAD''
                                              then Some (RawText bodyText) else None)\<rparr>
                       in case net req of
                            Inl e \<Rightarrow> (Inl e, [req])
                          | Inr resp \<Rightarrow>
                              (Inr \<lparr>code = resp_status resp,
                                    contentType = or_else (resp_contentType resp) ''application/json'',
                                    content = UpstreamBody (resp_text resp)\<rparr>, [req])))))"

section \<open>Provisioning (src/src/index.ts)\<close>

text \<open>\<^verbatim>\<open>instanceType.includes(sub)\<close>: \<open>sub\<close> occurs somewhere in the string.\<close>

fun includesStr :: "string \<Rightarrow> string \<Rightarrow> bool" where
  "includesStr [] sub = (sub = [])"
| "includesStr (c # cs) sub = (take (length sub) (c # cs) = sub \<or> includesStr cs sub)"

definition selectDeploymentStrategy :: "string \<Rightarrow> string" where
  "selectDeploymentStrategy it =
     (if includesStr it ''e2-'' then ''google_cloud''
      else if includesStr it ''t3.'' then ''railway''
      else ''cloudflare'')"

text \<open>
  The descriptor a backend returns. \<open>r_isRealVM\<close> is the tag \<^verbatim>\<open>isRealVM\<close> of the
  descriptors of \<^verbatim>\<open>part_001\<close>; the other fields that \<^verbatim>\<open>createRealVM\<close> never reads
  (\<^verbatim>\<open>region\<close>, \<^verbatim>\<open>projectId\<close>, \<^verbatim>\<open>selfLink\<close>, ...) are left out.
\<close>

record vm_result =
  r_containerId :: "string option"
  r_novncUrl :: string
  r_agentUrl :: string
  r_originNoVncUrl :: "string option"
  r_originAgentUrl :: "string option"
  r_publicIp :: "string option"
  r_chromeVersion :: string
  r_nodeVersion :: string
  r_memory :: string
  r_cpu :: string
  r_storage :: string
  r_isRealVM :: "bool option"

record Env =
  RAILWAY_VM_SERVER_URL :: "string option"

definition createCloudflareVM :: "VM \<Rightarrow> vm_result" where
  "createCloudflareVM vm =
     \<lparr>r_containerId = Some (''cf-container-'' @ vm_id vm),
      r_novncUrl = workerBase @ ''/vms/'' @ vm_id vm @ ''/novnc'',
      r_agentUrl = workerBase @ ''/vms/'' @ vm_id vm @ ''/agent'',
      r_originNoVncUrl = None, r_originAgentUrl = None,
      r_publicIp = Some ''cloudflare-edge-ip'',
      r_chromeVersion = ''120.0.0.0'', r_nodeVersion = ''18.19.0'',
      r_memory = ''512MB'', r_cpu = ''0.5 vCPU'', r_storage = ''1GB'',
      r_isRealVM = None\<rparr>"

definition createGoogleCloudVM :: "VM \<Rightarrow> vm_result" where
  "createGoogleCloudVM vm =
     \<lparr>r_containerId = Some (''gcp-vm-'' @ vm_id vm),
      r_novncUrl = workerBase @ ''/vms/'' @ vm_id vm @ ''/novnc'',
      r_agentUrl = workerBase @ ''/vms/'' @ vm_id vm @ ''/agent'',
      r_originNoVncUrl = None, r_originAgentUrl = None,
      r_publicIp = Some ''google-cloud-ip'',
      r_chromeVersion = ''120.0.0.0'', r_nodeVersion = ''18.19.0'',
      r_memory = ''2GB'', r_cpu = ''1 vCPU'', r_storage = ''10GB'',
      r_isRealVM = None\<rparr>"

text \<open>A status code in a template literal: its decimal digits.\<close>

definition digitChar :: "nat \<Rightarrow> char" where
  "digitChar d = ''0123456789'' ! (d mod 10)"

function show_nat :: "nat \<Rightarrow> string" where
  "show_nat n =
     (if n < 10 then [digitChar n]
      else show_nat (n div 10) @ [digitChar (n mod 10)])"
  by pat_completeness auto
termination
  by (relation "measure id") auto

declare show_nat.simps [simp del]

text \<open>
  \<^verbatim>\<open>createRailwayVM\<close>: with \<^verbatim>\<open>RAILWAY_VM_SERVER_URL\<close> set, one POST to the server; a
  rejected fetch, an answer that is not ok and an answer that is not JSON all leave the
  function as an exception (\<open>Inl\<close>, there is no \<^verbatim>\<open>try\<close> in it). Without the variable, a
  simulated descriptor.
\<close>

definition createRailwayVM ::
  "VM \<Rightarrow> Env \<Rightarrow> network \<Rightarrow> (string + vm_result) \<times> upstream_request list" where
  "createRailwayVM vm env net =
     (if truthy (RAILWAY_VM_SERVER_URL env) then
        (let base = (case RAILWAY_VM_SERVER_URL env of None \<Rightarrow> [] | Some b \<Rightarrow> b);
             req = \<lparr>req_url = stripSlash base @ ''/api/vms'', req_method = ''POST'',
                    req_headers = [(''Content-Type'', ''application/json'')],
                    req_body = Some (RailwayCreate (name vm) (serverId vm))\<rparr>
         in case net req of
              Inl e \<Rightarrow> (Inl e, [req])
            | Inr resp \<Rightarrow>
                if \<not> ok resp then
                  (Inl (''Railway VM server create failed: '' @ show_nat (resp_status resp)
                        @ '' '' @ resp_text resp), [req])
                else
                  (case resp_json resp of
                     Inl e \<Rightarrow> (Inl e, [req])
                   | Inr data \<Rightarrow>
                       (Inr \<lparr>r_containerId =
                               Some (or_else (map_of data ''id'') (''railway-vm-'' @ vm_id vm)),
                             r_novncUrl = workerBase @ ''/vms/'' @ vm_id vm @ ''/novnc'',
                             r_agentUrl = workerBase @ ''/vms/'' @ vm_id vm @ ''/agent'',
                             r_originNoVncUrl = map_of data ''novnc_url'',
                             r_originAgentUrl = map_of data ''agent_url'',
                             r_publicIp = Some (or_else (map_of data ''public_ip'') ''railway-ip''),
                             r_chromeVersion = or_else (map_of data ''chrome_version'') ''120.0.0.0'',
                             r_nodeVersion = or_else (map_of data ''node_version'') ''18.19.0'',
                             r_memory = ''1GB'', r_cpu = ''0.5 vCPU'', r_storage = ''5GB'',
                             r_isRealVM = None\<rparr>, [req])))
      else
        (Inr \<lparr>r_containerId = Some (''railway-vm-'' @ vm_id vm),
              r_novncUrl = workerBase @ ''/vms/'' @ vm_id vm @ ''/novnc'',
              r_agentUrl = workerBase @ ''/vms/'' @ vm_id vm @ ''/agent'',
              r_originNoVncUrl = None, r_originAgentUrl = None,
              r_publicIp = Some ''railway-ip'',
              r_chromeVersion = ''120.0.0.0'', r_nodeVersion = ''18.19.0'',
              r_memory = ''1GB'', r_cpu = ''0.5 vCPU'', r_storage = ''5GB'',
              r_isRealVM = None\<rparr>, []))"

text \<open>
  The assignments of \<^verbatim>\<open>createRealVM\<close> after the backend has returned; \<open>now\<close> is the
  clock read for \<^verbatim>\<open>lastActivity\<close>.
\<close>

definition applyResult :: "VM \<Rightarrow> vm_result \<Rightarrow> string \<Rightarrow> VM" where
  "applyResult vm res now =
     vm\<lparr>status := Ready,
        containerId := r_containerId res,
        novncUrl := Some (r_novncUrl res),
        agentUrl := Some (r_agentUrl res),
        originAgentUrl := or_opt (r_originAgentUrl res) (Some (r_agentUrl res)),
        originNoVncUrl := or_opt (r_originNoVncUrl res) (Some (r_novncUrl res)),
        publicIp := r_publicIp res,
        chromeVersion := Some (r_chromeVersion res),
        nodeVersion := Some (r_nodeVersion res),
        lastActivity := Some now,
        memory := Some (r_memory res),
        cpu := Some (r_cpu res),
        storage := Some (r_storage res)\<rparr>"

text \<open>The \<^verbatim>\<open>switch (deploymentStrategy)\<close> of \<^verbatim>\<open>createRealVM\<close>, with its default.\<close>

definition runBackend ::
  "string \<Rightarrow> VM \<Rightarrow> Env \<Rightarrow> network \<Rightarrow> (string + vm_result) \<times> upstream_request list" where
  "runBackend strategy vm env net =
     (if strategy = ''cloudflare'' then (Inr (createCloudflareVM vm), [])
      else if strategy = ''google_cloud'' then (Inr (createGoogleCloudVM vm), [])
      else if strategy = ''railway'' then createRailwayVM vm env net
      else (Inr (createCloudflareVM vm), []))"

text \<open>
  \<^verbatim>\<open>createRealVM(vm, env)\<close>: the \<^verbatim>\<open>try\<close> block selects and runs the backend and writes
  the descriptor into the object; the \<^verbatim>\<open>catch\<close> block writes \<^verbatim>\<open>error\<close> and the message.
  Both store the object.
\<close>

definition createRealVM ::
  "ref \<Rightarrow> Env \<Rightarrow> network \<Rightarrow> string \<Rightarrow> store \<Rightarrow> store \<times> upstream_request list" where
  "createRealVM r env net now s =
     (let vm = heap s r;
          deploymentStrategy = selectDeploymentStrategy (or_else (instanceType vm) ''t3.medium'')
      in case runBackend deploymentStrategy vm env net of
           (Inr res, calls) \<Rightarrow>
             (storeVM r (s\<lparr>heap := (heap s)(r := applyResult vm res now)\<rparr>), calls)
         | (Inl msg, calls) \<Rightarrow>
             (storeVM r (s\<lparr>heap := (heap s)(r := vm\<lparr>status := Error, error := Some msg\<rparr>)\<rparr>),
              calls))"

section \<open>Create (src/src/index.ts)\<close>

text \<open>
  \<^verbatim>\<open>generateVMId()\<close>: \<open>rnd\<close> is \<^verbatim>\<open>Math.random().toString(36).substr(2, 9)\<close> and
  \<open>ms\<close> is \<^verbatim>\<open>Date.now().toString(36)\<close>, both inputs of the model.
\<close>

definition generateVMId :: "string \<Rightarrow> string \<Rightarrow> string" where
  "generateVMId rnd ms = ''vm-'' @ rnd @ ''-'' @ ms"

text \<open>
  \<^verbatim>\<open>getServerName(serverId)\<close>: the table lookup with its default. (Keys that a
  JavaScript object inherits from its prototype are not modelled.)
\<close>

definition getServerName :: "string option \<Rightarrow> string" where
  "getServerName sid =
     or_else
       (case sid of
          None \<Rightarrow> None
        | Some k \<Rightarrow>
            map_of [(''default-cloud-server'', ''Cloudflare Workers''),
                    (''default-cloudflare-server'', ''Cloudflare Workers''),
                    (''default-google-cloud-server'', ''Google Cloud Platform''),
                    (''default-railway-server'', ''Railway'')] k)
       ''Unknown Server''"

text \<open>The fields \<^verbatim>\<open>handleCreateVM\<close> reads from the parsed request body.\<close>

record create_body =
  cb_name :: "string option"
  cb_server_id :: "string option"
  cb_instanceType :: "string option"
  cb_vmId :: "string option"

text \<open>
  \<^verbatim>\<open>handleCreateVM\<close>. \<open>parsed\<close> is the outcome of \<^verbatim>\<open>await request.json()\<close> (\<open>Inl\<close>
  the message of the error it throws); \<open>t0\<close> is the clock read for \<^verbatim>\<open>createdAt\<close> and
  \<open>t1\<close> the one read by \<^verbatim>\<open>createRealVM\<close>. The destructuring default gives
  \<^verbatim>\<open>'t3.medium'\<close> to an absent \<^verbatim>\<open>instanceType\<close>. The outer \<^verbatim>\<open>catch\<close> answers 500.
\<close>

definition handleCreateVM ::
  "string + create_body \<Rightarrow> Env \<Rightarrow> network \<Rightarrow> string \<Rightarrow> string \<Rightarrow> string \<Rightarrow> string \<Rightarrow> store
     \<Rightarrow> response \<times> store \<times> upstream_request list" where
  "handleCreateVM parsed env net rnd ms t0 t1 s =
     (case parsed of
        Inl msg \<Rightarrow> (json 500 (ErrorMessageBody ''Failed to create VM'' msg), s, [])
      | Inr b \<Rightarrow>
          if \<not> truthy (cb_name b) then
            (json 400 (ErrorBody ''VM name is required''), s, [])
          else
            (let vmId = generateVMId rnd ms;
                 vm = blankVM\<lparr>vm_id := vmId,
                        name := (case cb_name b of None \<Rightarrow> [] | Some n \<Rightarrow> n),
                        status := Initializing,
                        createdAt := t0,
                        instanceType :=
                          (case cb_instanceType b of None \<Rightarrow> Some ''t3.medium'' | Some i \<Rightarrow> Some i),
                        serverId := cb_server_id b,
                        serverName := Some (getServerName (cb_server_id b)),
                        region := Some ''global'',
                        createdVia := Some ''cloudflare-workers''\<rparr>;
                 (r, s1) = alloc vm s;
                 (s2, calls) = createRealVM r env net t1 s1;
                 s3 = storeVM r s2
             in (json 201 (CreatedBody (vm_id (heap s3 r)) (status (heap s3 r))), s3, calls)))"

section \<open>Strategy selection and backends (src/unnamed/part_001)\<close>

text \<open>
  \<^verbatim>\<open>selectDeploymentStrategy(instanceType, serverId?)\<close> of \<^verbatim>\<open>part_001\<close>: the variant
  with the server preference and without the Railway strategy.
\<close>

definition selectDeploymentStrategy_p1 :: "string \<Rightarrow> string option \<Rightarrow> string" where
  "selectDeploymentStrategy_p1 it sid =
     (if includesStr it ''e2-'' then ''google_cloud''
      else if includesStr it ''t3.'' then ''cloudflare''
      else if sid = Some ''default-google-cloud-server'' then ''google_cloud''
      else ''cloudflare'')"

record Env_p1 =
  GOOGLE_CLOUD_PROJECT_ID :: "string option"
  GOOGLE_CLOUD_ACCESS_TOKEN :: "string option"
  DOCKER_SERVICE_URL :: "string option"
  DOCKER_API_KEY :: "string option"
  chrome_vm_db :: bool

text \<open>\<^verbatim>\<open>vm.instanceType?.includes(sub)\<close>: false for an absent instance type.\<close>

definition typeIncludes :: "VM \<Rightarrow> string \<Rightarrow> bool" where
  "typeIncludes vm sub = (case instanceType vm of None \<Rightarrow> False | Some it \<Rightarrow> includesStr it sub)"

definition createCloudflareVM_p1 :: "VM \<Rightarrow> vm_result" where
  "createCloudflareVM_p1 vm =
     \<lparr>r_containerId = Some (''cf-container-'' @ vm_id vm),
      r_novncUrl = workerBase @ ''/vms/'' @ vm_id vm @ ''/novnc'',
      r_agentUrl = workerBase @ ''/vms/'' @ vm_id vm @ ''/agent'',
      r_originNoVncUrl = None, r_originAgentUrl = None,
      r_publicIp = Some (''cf-'' @ vm_id vm @ ''.workers.dev''),
      r_chromeVersion = ''120.0.0.0'', r_nodeVersion = ''18.19.0'',
      r_memory = (if typeIncludes vm ''t3.medium'' then ''512MB'' else ''1GB''),
      r_cpu = (if typeIncludes vm ''t3.medium'' then ''0.5 vCPU'' else ''1 vCPU''),
      r_storage = ''1GB'',
      r_isRealVM = None\<rparr>"

text \<open>The descriptor built from the answer of the container service.\<close>

definition realDescriptor :: "VM \<Rightarrow> (string \<times> string) list \<Rightarrow> vm_result" where
  "realDescriptor vm containerData =
     \<lparr>r_containerId = map_of containerData ''id'',
      r_novncUrl = workerBase @ ''/vms/'' @ vm_id vm @ ''/novnc'',
      r_agentUrl = workerBase @ ''/vms/'' @ vm_id vm @ ''/agent'',
      r_originNoVncUrl = map_of containerData ''novncUrl'',
      r_originAgentUrl = map_of containerData ''agentUrl'',
      r_publicIp = map_of containerData ''publicIp'',
      r_chromeVersion = ''120.0.0.0'', r_nodeVersion = ''18.19.0'',
      r_memory = (if typeIncludes vm ''e2-medium'' then ''2GB'' else ''4GB''),
      r_cpu = (if typeIncludes vm ''e2-medium'' then ''1 vCPU'' else ''2 vCPU''),
      r_storage = ''20GB'',
      r_isRealVM = Some True\<rparr>"

text \<open>The simulated descriptor \<^verbatim>\<open>mockGCPVM\<close>.\<close>

definition mockGCPVM :: "VM \<Rightarrow> string \<Rightarrow> vm_result" where
  "mockGCPVM vm projectId =
     \<lparr>r_containerId = Some (''gcp-vm-'' @ vm_id vm),
      r_novncUrl = workerBase @ ''/vms/'' @ vm_id vm @ ''/novnc'',
      r_agentUrl = workerBase @ ''/vms/'' @ vm_id vm @ ''/agent'',
      r_originNoVncUrl = None, r_originAgentUrl = None,
      r_publicIp = Some (''chrome-vm-'' @ vm_id vm @ ''.us-central1-a.c.'' @ projectId @ ''.internal''),
      r_chromeVersion = ''120.0.0.0'', r_nodeVersion = ''18.19.0'',
      r_memory = (if typeIncludes vm ''e2-medium'' then ''2GB'' else ''4GB''),
      r_cpu = (if typeIncludes vm ''e2-medium'' then ''1 vCPU'' else ''2 vCPU''),
      r_storage = ''20GB'',
      r_isRealVM = Some False\<rparr>"

definition dockerRequest :: "string \<Rightarrow> (string \<times> string) list \<Rightarrow> string \<Rightarrow> VM \<Rightarrow> upstream_request" where
  "dockerRequest url hdrs img vm =
     \<lparr>req_url = url, req_method = ''POST'', req_headers = hdrs,
      req_body = Some (DockerCreate (''chrome-vm-'' @ vm_id vm) img (vm_id vm) (name vm)
                        (if typeIncludes vm ''e2-medium'' then ''2GB'' else ''4GB'')
                        (if typeIncludes vm ''e2-medium'' then ''1'' else ''2''))\<rparr>"

text \<open>
  The \<^verbatim>\<open>try\<close> block of \<^verbatim>\<open>createGoogleCloudVM\<close> in \<^verbatim>\<open>part_001\<close>. Without the two
  credentials the edge backend is called. With \<^verbatim>\<open>DOCKER_SERVICE_URL\<close> set, one POST to
  the container service inside an inner \<^verbatim>\<open>try\<close>: a rejected fetch and an unparsable
  answer are caught there, an answer that is not ok is skipped, and all three fall
  through to the simulated descriptor.
\<close>

definition createGoogleCloudVM_try_p1 ::
  "VM \<Rightarrow> Env_p1 \<Rightarrow> network \<Rightarrow> (string + vm_result) \<times> upstream_request list" where
  "createGoogleCloudVM_try_p1 vm env net =
     (if \<not> truthy (GOOGLE_CLOUD_PROJECT_ID env) \<or> \<not> truthy (GOOGLE_CLOUD_ACCESS_TOKEN env)
      then (Inr (createCloudflareVM_p1 vm), [])
      else
        (let projectId = (case GOOGLE_CLOUD_PROJECT_ID env of None \<Rightarrow> [] | Some x \<Rightarrow> x) in
         if truthy (DOCKER_SERVICE_URL env) then
           (let base = (case DOCKER_SERVICE_URL env of None \<Rightarrow> [] | Some x \<Rightarrow> x);
                req = dockerRequest (base @ ''/containers'')
                        [(''Content-Type'', ''application/json''),
                         (''Authorization'', ''Bearer '' @ or_else (DOCKER_API_KEY env) ''demo-key'')]
                        ''chrome-vm:latest'' vm
            in case net req of
                 Inl e \<Rightarrow> (Inr (mockGCPVM vm projectId), [req])
               | Inr resp \<Rightarrow>
                   if ok resp then
                     (case resp_json resp of
                        Inl e \<Rightarrow> (Inr (mockGCPVM vm projectId), [req])
                      | Inr containerData \<Rightarrow> (Inr (realDescriptor vm containerData), [req]))
                   else (Inr (mockGCPVM vm projectId), [req]))
         else (Inr (mockGCPVM vm projectId), [])))"

text \<open>The outer \<^verbatim>\<open>catch\<close>: whatever the \<^verbatim>\<open>try\<close> block throws becomes the edge descriptor.\<close>

definition createGoogleCloudVM_p1 ::
  "VM \<Rightarrow> Env_p1 \<Rightarrow> network \<Rightarrow> (string + vm_result) \<times> upstream_request list" where
  "createGoogleCloudVM_p1 vm env net =
     (case createGoogleCloudVM_try_p1 vm env net of
        (Inr d, calls) \<Rightarrow> (Inr d, calls)
      | (Inl e, calls) \<Rightarrow> (Inr (createCloudflareVM_p1 vm), calls))"

text \<open>
  \<^verbatim>\<open>src/createGoogleCloudVM_fixed.js\<close>: the same function with the service address
  fixed in the code, so the POST is always attempted once the credentials are there.
\<close>

definition createGoogleCloudVM_try_fixed ::
  "VM \<Rightarrow> Env_p1 \<Rightarrow> network \<Rightarrow> (string + vm_result) \<times> upstream_request list" where
  "createGoogleCloudVM_try_fixed vm env net =
     (if \<not> truthy (GOOGLE_CLOUD_PROJECT_ID env) \<or> \<not> truthy (GOOGLE_CLOUD_ACCESS_TOKEN env)
      then (Inr (createCloudflareVM_p1 vm), [])
      else
        (let projectId = (case GOOGLE_CLOUD_PROJECT_ID env of None \<Rightarrow> [] | Some x \<Rightarrow> x);
             req = dockerRequest ''https://pacific-blessing-production.up.railway.app/containers''
                     [(''Content-Type'', ''application/json'')]
                     ''browserless/chrome:latest'' vm
         in case net req of
              Inl e \<Rightarrow> (Inr (mockGCPVM vm projectId), [req])
            | Inr resp \<Rightarrow>
                if ok resp then
                  (case resp_json resp of
                     Inl e \<Rightarrow> (Inr (mockGCPVM vm projectId), [req])
                   | Inr containerData \<Rightarrow> (Inr (realDescriptor vm containerData), [req]))
                else
                  (case resp_json resp of
                     Inl e \<Rightarrow> (Inr (mockGCPVM vm projectId), [req])
                   | Inr errorData \<Rightarrow> (Inr (mockGCPVM vm projectId), [req]))))"

definition createGoogleCloudVM_fixed ::
  "VM \<Rightarrow> Env_p1 \<Rightarrow> network \<Rightarrow> (string + vm_result) \<times> upstream_request list" where
  "createGoogleCloudVM_fixed vm env net =
     (case createGoogleCloudVM_try_fixed vm env net of
        (Inr d, calls) \<Rightarrow> (Inr d, calls)
      | (Inl e, calls) \<Rightarrow> (Inr (createCloudflareVM_p1 vm), calls))"

section \<open>Record store and create (src/unnamed/part_001)\<close>

text \<open>
  \<^verbatim>\<open>part_001\<close> keeps the map \<^verbatim>\<open>activeVMs\<close> and writes every stored record to the D1
  table \<^verbatim>\<open>vms\<close> as well. The state is the store with the table beside it, a map from
  the id to the row. \<open>chrome_vm_db\<close> says whether the binding exists, and each
  operation takes a flag for every D1 statement it runs: \<open>False\<close> when the statement
  throws (the source catches it and logs).
\<close>

type_synonym store_p1 = "store \<times> (string \<rightharpoonup> VM)"

text \<open>A column bound as \<^verbatim>\<open>vm.field || null\<close>.\<close>

definition orNull :: "string option \<Rightarrow> string option" where
  "orNull x = (if truthy x then x else None)"

definition rowOf :: "VM \<Rightarrow> VM" where
  "rowOf vm =
     vm\<lparr>containerId := orNull (containerId vm), novncUrl := orNull (novncUrl vm),
        agentUrl := orNull (agentUrl vm), originAgentUrl := orNull (originAgentUrl vm),
        originNoVncUrl := orNull (originNoVncUrl vm), publicIp := orNull (publicIp vm),
        chromeVersion := orNull (chromeVersion vm), nodeVersion := orNull (nodeVersion vm),
        lastActivity := orNull (lastActivity vm), instanceType := orNull (instanceType vm),
        memory := orNull (memory vm), cpu := orNull (cpu vm), storage := orNull (storage vm),
        serverId := orNull (serverId vm), serverName := orNull (serverName vm),
        region := orNull (region vm), createdVia := orNull (createdVia vm),
        error := orNull (error vm)\<rparr>"

definition storeVM_p1 :: "ref \<Rightarrow> Env_p1 \<Rightarrow> bool \<Rightarrow> store_p1 \<Rightarrow> store_p1" where
  "storeVM_p1 r env d1ok st =
     (case st of (s, db) \<Rightarrow>
        (storeVM r s,
         if chrome_vm_db env \<and> d1ok
         then db(vm_id (heap s r) \<mapsto> rowOf (heap s r)) else db))"

text \<open>
  \<^verbatim>\<open>getVMFromStorage\<close> of \<^verbatim>\<open>part_001\<close>: the two keys, then the table (\<^verbatim>\<open>null\<close> when
  there is no binding), then the placeholder. A row that is found is put into the map
  under \<^verbatim>\<open>vmId\<close> only. \<open>okRead\<close> and \<open>okWrite\<close> are the flags of the SELECT and of the
  INSERT of \<^verbatim>\<open>storeVM\<close>.
\<close>

definition getVMFromStorage_p1 ::
  "string \<Rightarrow> string \<Rightarrow> string \<Rightarrow> Env_p1 \<Rightarrow> bool \<Rightarrow> bool \<Rightarrow> store_p1 \<Rightarrow> ref option \<times> store_p1" where
  "getVMFromStorage_p1 vmId t1 t2 env okRead okWrite st =
     (case st of (s, db) \<Rightarrow>
        (case activeVMs s vmId of
           Some r \<Rightarrow> (Some r, st)
         | None \<Rightarrow>
             (case activeVMs s (aliasKey vmId) of
                Some r \<Rightarrow> (Some r, st)
              | None \<Rightarrow>
                  if \<not> chrome_vm_db env then (None, st)
                  else
                    (case (if okRead then db vmId else None) of
                       Some row \<Rightarrow>
                         (let (r, s1) = alloc row s
                          in (Some r, (s1\<lparr>activeVMs := (activeVMs s1)(vmId \<mapsto> r)\<rparr>, db)))
                     | None \<Rightarrow>
                         (let (r, s1) = alloc (mockVM vmId t1 t2) s
                          in (Some r, storeVM_p1 r env okWrite (s1, db)))))))"

definition handleGetVM_p1 ::
  "string \<Rightarrow> string \<Rightarrow> string \<Rightarrow> Env_p1 \<Rightarrow> bool \<Rightarrow> bool \<Rightarrow> store_p1 \<Rightarrow> response \<times> store_p1" where
  "handleGetVM_p1 vmId t1 t2 env okRead okWrite st =
     (case getVMFromStorage_p1 vmId t1 t2 env okRead okWrite st of
        (None, st1) \<Rightarrow> (json 404 (ErrorBody ''VM not found''), st1)
      | (Some r, st1) \<Rightarrow> (json 200 (VMBody (heap (fst st1) r)), st1))"

text \<open>\<^verbatim>\<open>handleDeleteVM\<close> of \<^verbatim>\<open>part_001\<close> is the one of \<^verbatim>\<open>index.ts\<close>: it runs no D1 statement.\<close>

definition handleDeleteVM_p1 :: "string \<Rightarrow> store_p1 \<Rightarrow> response \<times> store_p1" where
  "handleDeleteVM_p1 vmId st =
     (case st of (s, db) \<Rightarrow>
        (case handleDeleteVM vmId s of (resp, s1) \<Rightarrow> (resp, (s1, db))))"

text \<open>
  The \<^verbatim>\<open>switch\<close> of \<^verbatim>\<open>createRealVM\<close> in \<^verbatim>\<open>part_001\<close>: the descriptor together with
  the tag written to \<^verbatim>\<open>createdVia\<close>.
\<close>

definition runBackend_p1 ::
  "string \<Rightarrow> VM \<Rightarrow> Env_p1 \<Rightarrow> network
     \<Rightarrow> (string + vm_result \<times> string) \<times> upstream_request list" where
  "runBackend_p1 strategy vm env net =
     (if strategy = ''cloudflare'' then (Inr (createCloudflareVM_p1 vm, ''cloudflare-workers''), [])
      else if strategy = ''google_cloud'' then
        (case createGoogleCloudVM_p1 vm env net of
           (Inr d, calls) \<Rightarrow> (Inr (d, ''google-cloud-real''), calls)
         | (Inl e, calls) \<Rightarrow> (Inl e, calls))
      else (Inr (createCloudflareVM_p1 vm, ''cloudflare-workers''), []))"

definition createRealVM_p1 ::
  "ref \<Rightarrow> Env_p1 \<Rightarrow> network \<Rightarrow> string \<Rightarrow> bool \<Rightarrow> store_p1
     \<Rightarrow> store_p1 \<times> upstream_request list" where
  "createRealVM_p1 r env net now d1ok st =
     (case st of (s, db) \<Rightarrow>
        (let vm = heap s r;
             deploymentStrategy =
               selectDeploymentStrategy_p1 (or_else (instanceType vm) ''t3.medium'') (serverId vm)
         in case runBackend_p1 deploymentStrategy vm env net of
              (Inr (res, via), calls) \<Rightarrow>
                (storeVM_p1 r env d1ok
                   (s\<lparr>heap := (heap s)(r := applyResult (vm\<lparr>createdVia := Some via\<rparr>) res now)\<rparr>, db),
                 calls)
            | (Inl msg, calls) \<Rightarrow>
                (storeVM_p1 r env d1ok
                   (s\<lparr>heap := (heap s)(r := vm\<lparr>status := Error, error := Some msg\<rparr>)\<rparr>, db),
                 calls)))"

text \<open>
  \<^verbatim>\<open>handleCreateVM\<close> of \<^verbatim>\<open>part_001\<close>: the id is the requested one when the body
  carries a non-empty \<^verbatim>\<open>vmId\<close>, the instance type is \<^verbatim>\<open>instanceType || 't3.medium'\<close>.
\<close>

definition handleCreateVM_p1 ::
  "string + create_body \<Rightarrow> Env_p1 \<Rightarrow> network \<Rightarrow> string \<Rightarrow> string \<Rightarrow> string \<Rightarrow> string
     \<Rightarrow> bool \<Rightarrow> bool \<Rightarrow> store_p1 \<Rightarrow> response \<times> store_p1 \<times> upstream_request list" where
  "handleCreateVM_p1 parsed env net rnd ms t0 t1 okW1 okW2 st =
     (case parsed of
        Inl msg \<Rightarrow> (json 500 (ErrorMessageBody ''Failed to create VM'' msg), st, [])
      | Inr b \<Rightarrow>
          if \<not> truthy (cb_name b) then
            (json 400 (ErrorBody ''VM name is required''), st, [])
          else
            (case st of (s, db) \<Rightarrow>
               (let vmId = or_else (cb_vmId b) (generateVMId rnd ms);
                    vm = blankVM\<lparr>vm_id := vmId,
                           name := (case cb_name b of None \<Rightarrow> [] | Some n \<Rightarrow> n),
                           status := Initializing,
                           createdAt := t0,
                           instanceType := Some (or_else (cb_instanceType b) ''t3.medium''),
                           serverId := cb_server_id b,
                           serverName := Some (getServerName (cb_server_id b)),
                           region := Some ''global'',
                           createdVia := Some ''cloudflare-workers''\<rparr>;
                    (r, s1) = alloc vm s;
                    (st2, calls) = createRealVM_p1 r env net t1 okW1 (s1, db);
                    st3 = storeVM_p1 r env okW2 st2
                in (json 201 (CreatedBody (vm_id (heap (fst st3) r)) (status (heap (fst st3) r))),
                    st3, calls))))"

section \<open>Dispatcher\<close>

text \<open>
  \<^verbatim>\<open>fetch(request, env, ctx)\<close> is a chain of \<^verbatim>\<open>if\<close> statements on the method and on
  \<^verbatim>\<open>url.pathname\<close>, each returning the result of one handler. The model of the chain
  returns which handler is called and with which arguments; \<open>None\<close> as an id stands
  for \<^verbatim>\<open>undefined\<close> (\<^verbatim>\<open>split('/')[2]\<close> past the end).
\<close>

datatype handler_call =
    Preflight
  | Health
  | GetVMs
  | CreateVM
  | GetVM "string option"
  | DeleteVM "string option"
  | StartVM "string option"
  | RestartVM "string option"
  | NoVNC "string option"
  | Agent "string option"
  | AgentProxy "string option" string
  | GetServices
  | ExecuteScript "string option"
  | GetScripts "string option"
  | GetMetrics "string option"
  | RecordMetrics "string option"
  | GetEvents "string option"
  | StopVM "string option"
  | GetVMStatus "string option"
  | NotFound

definition startsWith :: "string \<Rightarrow> string \<Rightarrow> bool" where
  "startsWith s p = (take (length p) s = p)"

definition endsWith :: "string \<Rightarrow> string \<Rightarrow> bool" where
  "endsWith s p = (length p \<le> length s \<and> drop (length s - length p) s = p)"

text \<open>\<^verbatim>\<open>s.split('/')\<close>.\<close>

fun splitSlash :: "string \<Rightarrow> string list" where
  "splitSlash [] = [[]]"
| "splitSlash (c # cs) =
     (if c = CHR ''/'' then [] # splitSlash cs
      else (case splitSlash cs of [] \<Rightarrow> [[c]] | p # ps \<Rightarrow> (c # p) # ps))"

text \<open>\<^verbatim>\<open>parts[i]\<close>, \<^verbatim>\<open>undefined\<close> past the end.\<close>

fun element :: "string list \<Rightarrow> nat \<Rightarrow> string option" where
  "element [] i = None"
| "element (p # ps) 0 = Some p"
| "element (p # ps) (Suc i) = element ps i"

text \<open>\<^verbatim>\<open>parts.join('/')\<close>.\<close>

fun joinSlash :: "string list \<Rightarrow> string" where
  "joinSlash [] = []"
| "joinSlash [p] = p"
| "joinSlash (p # q # ps) = p @ ''/'' @ joinSlash (q # ps)"

definition pathId :: "string \<Rightarrow> string option" where
  "pathId path = element (splitSlash path) 2"

text \<open>The character class \<^verbatim>\<open>[A-Za-z0-9_-]\<close>.\<close>

definition idChar :: "char \<Rightarrow> bool" where
  "idChar c =
     (let n = (of_char c :: nat) in
      (65 \<le> n \<and> n \<le> 90) \<or> (97 \<le> n \<and> n \<le> 122) \<or> (48 \<le> n \<and> n \<le> 57)
      \<or> c = CHR ''_'' \<or> c = CHR ''-'')"

text \<open>
  \<^verbatim>\<open>pathname.match(/^\/vms\/[A-Za-z0-9_-]+<rest>$/)\<close> for a literal \<open>rest\<close> that starts
  with a slash: after \<^verbatim>\<open>/vms/\<close> comes a non-empty run of characters of the class, and
  what follows the longest such run is \<open>rest\<close> (a slash is not in the class, so the run
  the expression matches is the longest one).
\<close>

definition matchVm :: "string \<Rightarrow> string \<Rightarrow> bool" where
  "matchVm rest path =
     (startsWith path ''/vms/'' \<and> takeWhile idChar (drop 5 path) \<noteq> []
      \<and> dropWhile idChar (drop 5 path) = rest)"

text \<open>The expression of the agent control route, with its five alternatives.\<close>

definition matchAgentAction :: "string \<Rightarrow> bool" where
  "matchAgentAction path =
     (matchVm ''/agent/browser/navigate'' path \<or> matchVm ''/agent/restart'' path
      \<or> matchVm ''/agent/status'' path \<or> matchVm ''/agent/execute'' path
      \<or> matchVm ''/agent/screenshot'' path)"

text \<open>The chain of \<^verbatim>\<open>src/src/index.ts\<close>, in the order of the source.\<close>

definition fetch :: "string \<Rightarrow> string \<Rightarrow> handler_call" where
  "fetch method path =
     (if method = ''OPTIONS'' then Preflight
      else if path = ''/health'' then Health
      else if path = ''/vms'' \<and> method = ''GET'' then GetVMs
      else if path = ''/vms'' \<and> method = ''POST'' then CreateVM
      else if startsWith path ''/vms/'' \<and> method = ''GET'' then GetVM (pathId path)
      else if startsWith path ''/vms/'' \<and> method = ''DELETE'' then DeleteVM (pathId path)
      else if matchVm ''/start'' path \<and> method = ''POST'' then StartVM (pathId path)
      else if matchVm ''/restart'' path \<and> method = ''POST'' then RestartVM (pathId path)
      else if startsWith path ''/vms/'' \<and> endsWith path ''/novnc'' then NoVNC (pathId path)
      else if startsWith path ''/vms/'' \<and> endsWith path ''/agent'' then Agent (pathId path)
      else if matchAgentAction path
        then AgentProxy (pathId path) (joinSlash (drop 4 (splitSlash path)))
      else if path = ''/services'' \<and> method = ''GET'' then GetServices
      else NotFound)"

text \<open>
  The chain of \<^verbatim>\<open>src/unnamed/part_000\<close>: the NoVNC and agent routes come before the
  generic GET (\<^verbatim>\<open>// NoVNC endpoint (check BEFORE generic GET /vms/:id)\<close>,
  \<^verbatim>\<open>// Get VM (keep this AFTER more specific routes)\<close>).
\<close>

definition fetch_p0 :: "string \<Rightarrow> string \<Rightarrow> handler_call" where
  "fetch_p0 method path =
     (if method = ''OPTIONS'' then Preflight
      else if path = ''/health'' then Health
      else if path = ''/vms'' \<and> method = ''GET'' then GetVMs
      else if path = ''/vms'' \<and> method = ''POST'' then CreateVM
      else if startsWith path ''/vms/'' \<and> endsWith path ''/novnc'' then NoVNC (pathId path)
      else if startsWith path ''/vms/'' \<and> endsWith path ''/agent'' then Agent (pathId path)
      else if matchVm ''/start'' path \<and> method = ''POST'' then StartVM (pathId path)
      else if matchVm ''/restart'' path \<and> method = ''POST'' then RestartVM (pathId path)
      else if startsWith path ''/vms/'' \<and> method = ''GET'' then GetVM (pathId path)
      else if startsWith path ''/vms/'' \<and> method = ''DELETE'' then DeleteVM (pathId path)
      else if matchAgentAction path
        then AgentProxy (pathId path) (joinSlash (drop 4 (splitSlash path)))
      else if path = ''/services'' \<and> method = ''GET'' then GetServices
      else NotFound)"

text \<open>The chain of \<^verbatim>\<open>src/unnamed/part_001\<close>, which adds seven routes at the front.\<close>

definition fetch_p1 :: "string \<Rightarrow> string \<Rightarrow> handler_call" where
  "fetch_p1 method path =
     (if method = ''OPTIONS'' then Preflight
      else if path = ''/health'' then Health
      else if matchVm ''/scripts'' path \<and> method = ''POST'' then ExecuteScript (pathId path)
      else if matchVm ''/scripts'' path \<and> method = ''GET'' then GetScripts (pathId path)
      else if matchVm ''/metrics'' path \<and> method = ''GET'' then GetMetrics (pathId path)
      else if matchVm ''/metrics'' path \<and> method = ''POST'' then RecordMetrics (pathId path)
      else if matchVm ''/events'' path \<and> method = ''GET'' then GetEvents (pathId path)
      else if matchVm ''/stop'' path \<and> method = ''POST'' then StopVM (pathId path)
      else if matchVm ''/status'' path \<and> method = ''GET'' then GetVMStatus (pathId path)
      else if path = ''/vms'' \<and> method = ''GET'' then GetVMs
      else if path = ''/vms'' \<and> method = ''POST'' then CreateVM
      else if startsWith path ''/vms/'' \<and> endsWith path ''/novnc'' then NoVNC (pathId path)
      else if startsWith path ''/vms/'' \<and> endsWith path ''/agent'' then Agent (pathId path)
      else if matchVm ''/start'' path \<and> method = ''POST'' then StartVM (pathId path)
      else if matchVm ''/restart'' path \<and> method = ''POST'' then RestartVM (pathId path)
      else if startsWith path ''/vms/'' \<and> method = ''GET'' then GetVM (pathId path)
      else if startsWith path ''/vms/'' \<and> method = ''DELETE'' then DeleteVM (pathId path)
      else if matchAgentAction path
        then AgentProxy (pathId path) (joinSlash (drop 4 (splitSlash path)))
      else if path = ''/services'' \<and> method = ''GET'' then GetServices
      else NotFound)"

text \<open>
  \<^verbatim>\<open>handleNoVNC\<close>: the page built from the record, as \<^verbatim>\<open>text/html\<close>; the markup itself
  is not modelled.
\<close>

definition handleNoVNC :: "string \<Rightarrow> string \<Rightarrow> string \<Rightarrow> store \<Rightarrow> response \<times> store" where
  "handleNoVNC vmId t1 t2 s =
     (case getVMFromStorage vmId t1 t2 s of
        (None, s1) \<Rightarrow> (json 404 (ErrorBody ''VM not found''), s1)
      | (Some r, s1) \<Rightarrow>
          (\<lparr>code = 200, contentType = ''text/html'', content = HtmlBody (heap s1 r)\<rparr>, s1))"

text \<open>
  The part of a request to \<^verbatim>\<open>index.ts\<close> that the two handlers above answer: the
  response to a request that the chain gives to \<^verbatim>\<open>handleGetVM\<close> or to
  \<^verbatim>\<open>handleNoVNC\<close>, \<open>None\<close> for every other handler.
\<close>

definition respond ::
  "(string \<Rightarrow> string \<Rightarrow> handler_call) \<Rightarrow> string \<Rightarrow> string \<Rightarrow> string \<Rightarrow> string \<Rightarrow> store
     \<Rightarrow> (response \<times> store) option" where
  "respond chain method path t1 t2 s =
     (case chain method path of
        GetVM (Some vmId) \<Rightarrow> Some (handleGetVM vmId t1 t2 s)
      | NoVNC (Some vmId) \<Rightarrow> Some (handleNoVNC vmId t1 t2 s)
      | _ \<Rightarrow> None)"

section \<open>Tables and stores used in the statements\<close>

text \<open>The action table of the specification of the proxy: action name and path suffix.\<close>

definition agentActions :: "(string \<times> string) list" where
  "agentActions =
     [(''browser/navigate'', ''/browser/navigate''), (''restart'', ''/browser/restart''),
      (''status'', ''/health''), (''execute'', ''/run''), (''screenshot'', ''/run'')]"

text \<open>The store after \<^verbatim>\<open>GET /vms/abc\<close> on a fresh worker: the placeholder record.\<close>

definition demoStore :: store where
  "demoStore = snd (getVMFromStorage ''abc'' ''t1'' ''t2'' empty_store)"

text \<open>A store holding one record with an origin agent URL.\<close>

definition upVM :: VM where
  "upVM = blankVM\<lparr>vm_id := ''abc'', name := ''demo'', status := Stopped,
                   originAgentUrl := Some ''http://u/''\<rparr>"

definition upStore :: store where
  "upStore = storeVM 0 (snd (alloc upVM empty_store))"

text \<open>
  The object literal of \<^verbatim>\<open>handleCreateVM\<close> in \<^verbatim>\<open>index.ts\<close>, for a body \<open>b\<close>, the
  generated id and the clock.
\<close>

definition requestedVM :: "create_body \<Rightarrow> string \<Rightarrow> string \<Rightarrow> VM" where
  "requestedVM b vmId t0 =
     blankVM\<lparr>vm_id := vmId,
        name := (case cb_name b of None \<Rightarrow> [] | Some n \<Rightarrow> n),
        status := Initializing,
        createdAt := t0,
        instanceType := (case cb_instanceType b of None \<Rightarrow> Some ''t3.medium'' | Some i \<Rightarrow> Some i),
        serverId := cb_server_id b,
        serverName := Some (getServerName (cb_server_id b)),
        region := Some ''global'',
        createdVia := Some ''cloudflare-workers''\<rparr>"

text \<open>
  A create request with a name only, an environment with a Railway server, and two
  behaviours of that server: it answers with a container and an agent URL, or the
  connection fails.
\<close>

definition webBody :: create_body where
  "webBody = \<lparr>cb_name = Some ''web'', cb_server_id = None, cb_instanceType = None, cb_vmId = None\<rparr>"

definition railwayEnv :: Env where
  "railwayEnv = \<lparr>RAILWAY_VM_SERVER_URL = Some ''http://r/''\<rparr>"

definition railwayUp :: network where
  "railwayUp = (\<lambda>_. Inr \<lparr>resp_status = 200, resp_contentType = Some ''application/json'',
                          resp_text = [], resp_json = Inr [(''id'', ''c1''), (''agent_url'', ''http://u/'')]\<rparr>)"

definition railwayDown :: network where
  "railwayDown = (\<lambda>_. Inl ''connect failed'')"

text \<open>
  The selection rule as the specification words it, with the reserved patterns read
  as prefixes of the instance type; to be compared with
  \<open>selectDeploymentStrategy_p1\<close>.
\<close>

definition selectByPrefix_spec :: "string \<Rightarrow> string option \<Rightarrow> string" where
  "selectByPrefix_spec it sid =
     (if startsWith it ''e2-'' then ''google_cloud''
      else if startsWith it ''t3.'' then ''cloudflare''
      else if sid = Some ''default-google-cloud-server'' then ''google_cloud''
      else ''cloudflare'')"

text \<open>
  The alias invariant at one id: the primary and the alias key hold the same object,
  or neither holds one. \<open>prefixed\<close> ids begin with the alias prefix themselves, and
  \<open>plainIdsAgree\<close> is the invariant at every id that does not.
\<close>

definition aliasAgree :: "store \<Rightarrow> string \<Rightarrow> bool" where
  "aliasAgree s vmId = (activeVMs s vmId = activeVMs s (aliasKey vmId))"

definition prefixed :: "string \<Rightarrow> bool" where
  "prefixed vmId = startsWith vmId ''working-vm-''"

definition plainIdsAgree :: "store \<Rightarrow> bool" where
  "plainIdsAgree s = (\<forall>i. \<not> prefixed i \<longrightarrow> aliasAgree s i)"

text \<open>
  Environments of \<^verbatim>\<open>part_001\<close> with and without the D1 binding, and the state of a
  worker that has stored \<open>upVM\<close> and was started again: the map is empty, the table
  still has the row.
\<close>

definition d1Env :: Env_p1 where
  "d1Env = \<lparr>GOOGLE_CLOUD_PROJECT_ID = None, GOOGLE_CLOUD_ACCESS_TOKEN = None,
            DOCKER_SERVICE_URL = None, DOCKER_API_KEY = None, chrome_vm_db = True\<rparr>"

definition noD1Env :: Env_p1 where
  "noD1Env = \<lparr>GOOGLE_CLOUD_PROJECT_ID = None, GOOGLE_CLOUD_ACCESS_TOKEN = None,
              DOCKER_SERVICE_URL = None, DOCKER_API_KEY = None, chrome_vm_db = False\<rparr>"

definition afterRestart :: store_p1 where
  "afterRestart =
     (empty_store, snd (storeVM_p1 0 d1Env True (snd (alloc upVM empty_store), Map.empty)))"

text \<open>
  An environment of \<^verbatim>\<open>part_001\<close> with the credentials and a container service, a
  Railway server that answers 503, and two records as \<^verbatim>\<open>handleCreateVM\<close> builds them:
  one with an \<^verbatim>\<open>e2\<close> instance type, one with the default type.
\<close>

definition gcpEnv :: Env_p1 where
  "gcpEnv = \<lparr>GOOGLE_CLOUD_PROJECT_ID = Some ''proj'', GOOGLE_CLOUD_ACCESS_TOKEN = Some ''tok'',
             DOCKER_SERVICE_URL = Some ''http://d'', DOCKER_API_KEY = None, chrome_vm_db = True\<rparr>"

definition railwayBusy :: network where
  "railwayBusy = (\<lambda>_. Inr \<lparr>resp_status = 503, resp_contentType = None,
                            resp_text = ''busy'', resp_json = Inl ''Unexpected token''\<rparr>)"

definition e2VM :: VM where
  "e2VM = requestedVM (webBody\<lparr>cb_instanceType := Some ''e2-standard-4''\<rparr>) ''vm-1'' ''t0''"

definition t3VM :: VM where
  "t3VM = requestedVM webBody ''vm-1'' ''t0''"

section \<open>Properties of the store\<close>

lemma lookupVM_None:
  "lookupVM s vmId = None \<longleftrightarrow> activeVMs s vmId = None \<and> activeVMs s (aliasKey vmId) = None"
  by (simp add: lookupVM_def split: option.splits)

lemma heap_storeVM [simp]: "heap (storeVM r s) = heap s"
  by (simp add: storeVM_def Let_def)

lemma activeVMs_storeVM_id: "activeVMs (storeVM r s) (vm_id (heap s r)) = Some r"
  by (simp add: storeVM_def Let_def aliasKey_def)

lemma activeVMs_storeVM_alias: "activeVMs (storeVM r s) (aliasKey (vm_id (heap s r))) = Some r"
  by (simp add: storeVM_def Let_def)

lemma demoStore_lookup: "lookupVM demoStore ''abc'' = Some 0"
  by (simp add: demoStore_def getVMFromStorage_def empty_store_def alloc_def storeVM_def
      lookupVM_def aliasKey_def Let_def mockVM_def)

lemma demoStore_heap: "heap demoStore 0 = mockVM ''abc'' ''t1'' ''t2''"
  by (simp add: demoStore_def getVMFromStorage_def empty_store_def alloc_def storeVM_def
      Let_def mockVM_def)

lemma upStore_heap: "heap upStore 0 = upVM"
  by (simp add: upStore_def alloc_def empty_store_def)

lemma upStore_lookup: "lookupVM upStore ''abc'' = Some 0"
  by (simp add: upStore_def alloc_def empty_store_def storeVM_def Let_def lookupVM_def
      upVM_def blankVM_def)

lemma upStore_absent:
  "activeVMs upStore ''zzz'' = None" "activeVMs upStore (aliasKey ''zzz'') = None"
  by (simp_all add: upStore_def alloc_def empty_store_def storeVM_def Let_def upVM_def
      blankVM_def aliasKey_def)

section \<open>Action proxy\<close>

lemma upstreamPath_map_of: "upstreamPath action = map_of agentActions action"
  by (simp add: upstreamPath_def agentActions_def)

text \<open>
  C7. For a record with a non-empty origin agent URL \<open>u\<close>, each of the five actions of
  the table issues exactly one upstream call, to \<open>u\<close> with one trailing slash removed
  followed by the suffix of the action (\<^verbatim>\<open>browser/navigate\<close> to \<^verbatim>\<open>/browser/navigate\<close>,
  \<^verbatim>\<open>restart\<close> to \<^verbatim>\<open>/browser/restart\<close>, \<^verbatim>\<open>status\<close> to \<^verbatim>\<open>/health\<close>, \<^verbatim>\<open>execute\<close> and
  \<^verbatim>\<open>screenshot\<close> to \<^verbatim>\<open>/run\<close>); every other action is answered 400 and no call is made,
  whatever the network would answer.
\<close>

theorem handleAgentProxy_actions:
  assumes "lookupVM s vmId = Some r" and "originAgentUrl (heap s r) = Some u" and "u \<noteq> []"
  shows "(map_of agentActions action = Some p \<longrightarrow>
            map req_url (snd (handleAgentProxy vmId action method bodyText net s))
              = [stripSlash u @ p])
       \<and> (map_of agentActions action = None \<longrightarrow>
            handleAgentProxy vmId action method bodyText net s
              = (Inr (json 400 (ErrorBody ''Unsupported agent action'')), []))"
  using assms
  by (auto simp add: handleAgentProxy_def upstreamPath_map_of Let_def split: sum.splits)

theorem handleAgentProxy_actions_witness:
  "lookupVM upStore ''abc'' = Some 0 \<and> originAgentUrl (heap upStore 0) = Some ''http://u/''
   \<and> map_of agentActions ''status'' = Some ''/health''
   \<and> map req_url (snd (handleAgentProxy ''abc'' ''status'' ''GET'' [] (\<lambda>_. Inl ''down'') upStore))
        = [''http://u/health'']
   \<and> map_of agentActions ''execute'' = Some ''/run''
   \<and> map req_url (snd (handleAgentProxy ''abc'' ''execute'' ''POST'' ''{}'' (\<lambda>_. Inl ''down'') upStore))
        = [''http://u/run'']
   \<and> map_of agentActions ''reboot'' = None
   \<and> handleAgentProxy ''abc'' ''reboot'' ''POST'' ''{}'' (\<lambda>_. Inl ''down'') upStore
        = (Inr (json 400 (ErrorBody ''Unsupported agent action'')), [])"
  using handleAgentProxy_actions [of upStore "''abc''" 0 "''http://u/''" "''status''" "''/health''"
          "''GET''" "[]" "\<lambda>_. Inl ''down''"]
        handleAgentProxy_actions [of upStore "''abc''" 0 "''http://u/''" "''execute''" "''/run''"
          "''POST''" "''{}''" "\<lambda>_. Inl ''down''"]
        handleAgentProxy_actions [of upStore "''abc''" 0 "''http://u/''" "''reboot''" "[]"
          "''POST''" "''{}''" "\<lambda>_. Inl ''down''"]
  by (simp add: upStore_lookup upStore_heap upVM_def agentActions_def stripSlash_def)

text \<open>
  C8. For a record whose origin agent URL is unset or empty, the proxy answers 400
  \<^verbatim>\<open>No upstream agent URL\<close> for every action (not 404) and makes no upstream call.
\<close>

theorem handleAgentProxy_no_upstream:
  assumes "lookupVM s vmId = Some r" and "\<not> truthy (originAgentUrl (heap s r))"
  shows "handleAgentProxy vmId action method bodyText net s
           = (Inr (json 400 (ErrorBody ''No upstream agent URL'')), [])"
  using assms by (cases "originAgentUrl (heap s r)") (simp_all add: handleAgentProxy_def)

theorem handleAgentProxy_no_upstream_witness:
  "lookupVM demoStore ''abc'' = Some 0 \<and> \<not> truthy (originAgentUrl (heap demoStore 0))
   \<and> handleAgentProxy ''abc'' ''status'' ''GET'' [] (\<lambda>_. Inl ''unreachable'') demoStore
        = (Inr (json 400 (ErrorBody ''No upstream agent URL'')), [])"
  using handleAgentProxy_no_upstream [of demoStore "''abc''" 0 "''status''" "''GET''" "[]"
          "\<lambda>_. Inl ''unreachable''"]
  by (simp add: demoStore_lookup demoStore_heap mockVM_def)

section \<open>Start and restart\<close>

lemma catchIgnore_Inr: "\<exists>x. catchIgnore out = Inr x"
  by (cases out) simp_all

text \<open>
  C9. \<^verbatim>\<open>start(id)\<close> and \<^verbatim>\<open>restart(id)\<close> answer 404 and change nothing when the id is
  present under neither the primary nor the alias key. Otherwise, whatever the network
  does with it, the restart signal is sent exactly when the record has a non-empty
  origin agent URL (one POST to that URL plus \<^verbatim>\<open>/browser/restart\<close>), its failure is not
  surfaced, the status becomes \<^verbatim>\<open>ready\<close> (start) or \<^verbatim>\<open>initializing\<close> (restart),
  \<^verbatim>\<open>lastActivity\<close> is the clock, the record is stored under both of its keys, and the
  answer is the success body.
\<close>

theorem start_restart:
  "(activeVMs s vmId = None \<and> activeVMs s (aliasKey vmId) = None \<longrightarrow>
      handleStartVM vmId now net s = (Inr (json 404 (ErrorBody ''VM not found'')), s, [])
      \<and> handleRestartVM vmId now net s = (Inr (json 404 (ErrorBody ''VM not found'')), s, []))
   \<and> (lookupVM s vmId = Some r \<longrightarrow>
        (\<exists>s'. handleStartVM vmId now net s
                 = (Inr (json 200 (SuccessBody (''VM '' @ vmId @ '' started.''))), s',
                    if truthy (originAgentUrl (heap s r))
                    then [restartSignal (the (originAgentUrl (heap s r)))] else [])
              \<and> heap s' r = (heap s r)\<lparr>status := Ready, lastActivity := Some now\<rparr>
              \<and> activeVMs s' (vm_id (heap s r)) = Some r
              \<and> activeVMs s' (aliasKey (vm_id (heap s r))) = Some r)
        \<and> (\<exists>s'. handleRestartVM vmId now net s
                 = (Inr (json 200 (SuccessBody (''VM '' @ vmId @ '' restart initiated.''))), s',
                    if truthy (originAgentUrl (heap s r))
                    then [restartSignal (the (originAgentUrl (heap s r)))] else [])
              \<and> heap s' r = (heap s r)\<lparr>status := Initializing, lastActivity := Some now\<rparr>
              \<and> activeVMs s' (vm_id (heap s r)) = Some r
              \<and> activeVMs s' (aliasKey (vm_id (heap s r))) = Some r))"
proof (intro conjI impI)
  assume "activeVMs s vmId = None \<and> activeVMs s (aliasKey vmId) = None"
  then have n: "lookupVM s vmId = None" by (simp add: lookupVM_None)
  show "handleStartVM vmId now net s = (Inr (json 404 (ErrorBody ''VM not found'')), s, [])"
    by (simp add: handleStartVM_def n)
  show "handleRestartVM vmId now net s = (Inr (json 404 (ErrorBody ''VM not found'')), s, [])"
    by (simp add: handleRestartVM_def n)
next
  assume f: "lookupVM s vmId = Some r"
  let ?vm = "heap s r"
  let ?s1 = "s\<lparr>heap := (heap s)(r := ?vm\<lparr>status := Ready, lastActivity := Some now\<rparr>)\<rparr>"
  have id1: "vm_id (heap ?s1 r) = vm_id ?vm" by simp
  show "\<exists>s'. handleStartVM vmId now net s
                 = (Inr (json 200 (SuccessBody (''VM '' @ vmId @ '' started.''))), s',
                    if truthy (originAgentUrl (heap s r))
                    then [restartSignal (the (originAgentUrl (heap s r)))] else [])
              \<and> heap s' r = (heap s r)\<lparr>status := Ready, lastActivity := Some now\<rparr>
              \<and> activeVMs s' (vm_id (heap s r)) = Some r
              \<and> activeVMs s' (aliasKey (vm_id (heap s r))) = Some r"
  proof (intro exI [of _ "storeVM r ?s1"] conjI)
    show "handleStartVM vmId now net s
            = (Inr (json 200 (SuccessBody (''VM '' @ vmId @ '' started.''))), storeVM r ?s1,
               if truthy (originAgentUrl (heap s r))
               then [restartSignal (the (originAgentUrl (heap s r)))] else [])"
      using catchIgnore_Inr [of "net (restartSignal (the (originAgentUrl (heap s r))))"]
      by (cases "originAgentUrl (heap s r)") (auto simp add: handleStartVM_def f Let_def)
    show "heap (storeVM r ?s1) r = (heap s r)\<lparr>status := Ready, lastActivity := Some now\<rparr>" by simp
    show "activeVMs (storeVM r ?s1) (vm_id (heap s r)) = Some r"
      using activeVMs_storeVM_id [of r ?s1] by simp
    show "activeVMs (storeVM r ?s1) (aliasKey (vm_id (heap s r))) = Some r"
      using activeVMs_storeVM_alias [of r ?s1] by simp
  qed
  let ?s2 = "s\<lparr>heap := (heap s)(r := ?vm\<lparr>status := Initializing, lastActivity := Some now\<rparr>)\<rparr>"
  show "\<exists>s'. handleRestartVM vmId now net s
                 = (Inr (json 200 (SuccessBody (''VM '' @ vmId @ '' restart initiated.''))), s',
                    if truthy (originAgentUrl (heap s r))
                    then [restartSignal (the (originAgentUrl (heap s r)))] else [])
              \<and> heap s' r = (heap s r)\<lparr>status := Initializing, lastActivity := Some now\<rparr>
              \<and> activeVMs s' (vm_id (heap s r)) = Some r
              \<and> activeVMs s' (aliasKey (vm_id (heap s r))) = Some r"
  proof (intro exI [of _ "storeVM r ?s2"] conjI)
    show "handleRestartVM vmId now net s
            = (Inr (json 200 (SuccessBody (''VM '' @ vmId @ '' restart initiated.''))), storeVM r ?s2,
               if truthy (originAgentUrl (heap s r))
               then [restartSignal (the (originAgentUrl (heap s r)))] else [])"
      using catchIgnore_Inr [of "net (restartSignal (the (originAgentUrl (heap s r))))"]
      by (cases "originAgentUrl (heap s r)") (auto simp add: handleRestartVM_def f Let_def)
    show "heap (storeVM r ?s2) r = (heap s r)\<lparr>status := Initializing, lastActivity := Some now\<rparr>" by simp
    show "activeVMs (storeVM r ?s2) (vm_id (heap s r)) = Some r"
      using activeVMs_storeVM_id [of r ?s2] by simp
    show "activeVMs (storeVM r ?s2) (aliasKey (vm_id (heap s r))) = Some r"
      using activeVMs_storeVM_alias [of r ?s2] by simp
  qed
qed


theorem start_restart_witness:
  "activeVMs upStore ''zzz'' = None \<and> activeVMs upStore (aliasKey ''zzz'') = None
   \<and> handleStartVM ''zzz'' ''now'' (\<lambda>_. Inl ''down'') upStore
        = (Inr (json 404 (ErrorBody ''VM not found'')), upStore, [])
   \<and> lookupVM upStore ''abc'' = Some 0
   \<and> (\<exists>s'. handleStartVM ''abc'' ''now'' (\<lambda>_. Inl ''down'') upStore
              = (Inr (json 200 (SuccessBody ''VM abc started.'')), s',
                 [\<lparr>req_url = ''http://u/browser/restart'', req_method = ''POST'',
                   req_headers = [], req_body = None\<rparr>])
            \<and> status (heap s' 0) = Ready \<and> lastActivity (heap s' 0) = Some ''now'')
   \<and> (\<exists>s'. handleRestartVM ''abc'' ''now'' (\<lambda>_. Inl ''down'') upStore
              = (Inr (json 200 (SuccessBody ''VM abc restart initiated.'')), s',
                 [\<lparr>req_url = ''http://u/browser/restart'', req_method = ''POST'',
                   req_headers = [], req_body = None\<rparr>])
            \<and> status (heap s' 0) = Initializing \<and> lastActivity (heap s' 0) = Some ''now'')"
  using start_restart [of upStore "''zzz''" "''now''" "\<lambda>_. Inl ''down''" 0]
        start_restart [of upStore "''abc''" "''now''" "\<lambda>_. Inl ''down''" 0]
  by (auto simp add: upStore_absent upStore_lookup upStore_heap upVM_def restartSignal_def stripSlash_def)

section \<open>Create\<close>

lemma runBackend_agentUrl:
  "runBackend st vm env net = (Inr res, c) \<Longrightarrow> r_agentUrl res = workerBase @ ''/vms/'' @ vm_id vm @ ''/agent''"
  by (auto simp add: runBackend_def createCloudflareVM_def createGoogleCloudVM_def createRailwayVM_def Let_def
      split: if_splits sum.splits)

lemma workerBase_nonempty: "workerBase @ x \<noteq> []"
  by (simp add: workerBase_def)

lemma or_opt_truthy: "truthy b \<Longrightarrow> truthy (or_opt a b)"
  by (simp add: or_opt_def)

lemma applyResult_fields:
  "status (applyResult vm res now) = Ready"
  "vm_id (applyResult vm res now) = vm_id vm"
  "originAgentUrl (applyResult vm res now) = or_opt (r_originAgentUrl res) (Some (r_agentUrl res))"
  by (simp_all add: applyResult_def)

lemma createRealVM_cases:
  assumes "createRealVM r env net now s = (s', calls)"
  shows "(\<exists>res st. runBackend st (heap s r) env net = (Inr res, calls)
            \<and> s' = storeVM r (s\<lparr>heap := (heap s)(r := applyResult (heap s r) res now)\<rparr>))
       \<or> (\<exists>msg st. runBackend st (heap s r) env net = (Inl msg, calls)
            \<and> s' = storeVM r (s\<lparr>heap := (heap s)(r := (heap s r)\<lparr>status := Error, error := Some msg\<rparr>)\<rparr>))"
  using assms
  by (auto simp add: createRealVM_def Let_def split: prod.splits sum.splits)

lemma createRealVM_result:
  assumes "createRealVM r env net now s = (s', calls)"
  shows "vm_id (heap s' r) = vm_id (heap s r)"
    and "status (heap s' r) = Ready \<or> status (heap s' r) = Error"
    and "activeVMs s' (vm_id (heap s r)) = Some r"
    and "status (heap s' r) = Ready \<Longrightarrow> truthy (originAgentUrl (heap s' r))"
proof -
  from createRealVM_cases [OF assms] show "vm_id (heap s' r) = vm_id (heap s r)"
    by (auto simp add: applyResult_fields)
  from createRealVM_cases [OF assms] show "status (heap s' r) = Ready \<or> status (heap s' r) = Error"
    by (auto simp add: applyResult_fields)
  from createRealVM_cases [OF assms] show "activeVMs s' (vm_id (heap s r)) = Some r"
  proof (elim disjE exE conjE)
    fix res st
    assume "s' = storeVM r (s\<lparr>heap := (heap s)(r := applyResult (heap s r) res now)\<rparr>)"
    then show ?thesis
      using activeVMs_storeVM_id [of r "s\<lparr>heap := (heap s)(r := applyResult (heap s r) res now)\<rparr>"]
      by (simp add: applyResult_fields)
  next
    fix msg st
    assume "s' = storeVM r (s\<lparr>heap := (heap s)(r := (heap s r)\<lparr>status := Error, error := Some msg\<rparr>)\<rparr>)"
    then show ?thesis
      using activeVMs_storeVM_id [of r "s\<lparr>heap := (heap s)(r := (heap s r)\<lparr>status := Error, error := Some msg\<rparr>)\<rparr>"]
      by simp
  qed
  assume rdy: "status (heap s' r) = Ready"
  from createRealVM_cases [OF assms] rdy show "truthy (originAgentUrl (heap s' r))"
    by (auto simp add: applyResult_fields or_opt_truthy workerBase_nonempty dest!: runBackend_agentUrl)
qed


lemma handleCreateVM_unfold:
  assumes "truthy (cb_name b)"
    and "createRealVM (nextRef s) env net t1
           (s\<lparr>heap := (heap s)(nextRef s := requestedVM b (generateVMId rnd ms) t0),
              nextRef := Suc (nextRef s)\<rparr>) = (s2, calls)"
  shows "handleCreateVM (Inr b) env net rnd ms t0 t1 s
           = (json 201 (CreatedBody (vm_id (heap s2 (nextRef s))) (status (heap s2 (nextRef s)))),
              storeVM (nextRef s) s2, calls)"
  using assms by (simp add: handleCreateVM_def Let_def alloc_def requestedVM_def)

lemma handleGetVM_present:
  "activeVMs s vmId = Some r \<Longrightarrow> handleGetVM vmId t1 t2 s = (json 200 (VMBody (heap s r)), s)"
  by (simp add: handleGetVM_def getVMFromStorage_def)

lemma truthy_Some: "truthy x \<Longrightarrow> \<exists>u. x = Some u \<and> u \<noteq> []"
  by (cases x) simp_all

lemma handleAgentProxy_has_upstream:
  assumes "lookupVM s vmId = Some r" and "originAgentUrl (heap s r) = Some u" and "u \<noteq> []"
  shows "fst (handleAgentProxy vmId action method bodyText net s)
           \<noteq> Inr (json 400 (ErrorBody ''No upstream agent URL''))"
  using assms
  by (auto simp add: handleAgentProxy_def Let_def json_def split: option.splits sum.splits)

lemmas eval_defs = handleCreateVM_def createRealVM_def runBackend_def createRailwayVM_def
  selectDeploymentStrategy_def generateVMId_def alloc_def storeVM_def empty_store_def Let_def
  webBody_def railwayEnv_def stripSlash_def blankVM_def getServerName_def aliasKey_def json_def

lemma create_down:
  "handleCreateVM (Inr webBody) railwayEnv (\<lambda>_. Inl ''connect failed'') ''k3x'' ''lz1'' ''t0'' ''t1'' empty_store
     = (json 201 (CreatedBody ''vm-k3x-lz1'' Error), 
        storeVM 0 (snd (alloc (requestedVM webBody ''vm-k3x-lz1'' ''t0''\<lparr>status := Error, error := Some ''connect failed''\<rparr>) empty_store)),
        [\<lparr>req_url = ''http://r/api/vms'', req_method = ''POST'',
          req_headers = [(''Content-Type'', ''application/json'')],
          req_body = Some (RailwayCreate ''web'' None)\<rparr>])"
  by (simp add: eval_defs requestedVM_def)


lemma create_up:
  "handleCreateVM (Inr webBody) railwayEnv railwayUp ''k3x'' ''lz1'' ''t0'' ''t1'' empty_store
     = (json 201 (CreatedBody ''vm-k3x-lz1'' Ready),
        storeVM 0 (snd (alloc (applyResult (requestedVM webBody ''vm-k3x-lz1'' ''t0'')
             \<lparr>r_containerId = Some ''c1'',
              r_novncUrl = workerBase @ ''/vms/vm-k3x-lz1/novnc'',
              r_agentUrl = workerBase @ ''/vms/vm-k3x-lz1/agent'',
              r_originNoVncUrl = None, r_originAgentUrl = Some ''http://u/'',
              r_publicIp = Some ''railway-ip'',
              r_chromeVersion = ''120.0.0.0'', r_nodeVersion = ''18.19.0'',
              r_memory = ''1GB'', r_cpu = ''0.5 vCPU'', r_storage = ''5GB'',
              r_isRealVM = None\<rparr> ''t1'') empty_store)),
        [\<lparr>req_url = ''http://r/api/vms'', req_method = ''POST'',
          req_headers = [(''Content-Type'', ''application/json'')],
          req_body = Some (RailwayCreate ''web'' None)\<rparr>])"
  by (simp add: eval_defs requestedVM_def railwayUp_def ok_def applyResult_def)

text \<open>
  C1. For every create request with a non-empty name, whatever the environment and
  the network do (also when the backend throws), the answer is the 201 acknowledgment
  carrying the id, and a get on that id right after it answers the record with that id
  whose status is \<^verbatim>\<open>ready\<close> or \<^verbatim>\<open>error\<close>, never \<^verbatim>\<open>initializing\<close>.
\<close>

theorem create_then_get:
  assumes "truthy (cb_name b)"
  shows "\<exists>vmId st s' calls vm.
           handleCreateVM (Inr b) env net rnd ms t0 t1 s = (json 201 (CreatedBody vmId st), s', calls)
           \<and> handleGetVM vmId t2 t3 s' = (json 200 (VMBody vm), s')
           \<and> vm_id vm = vmId \<and> status vm = st \<and> (st = Ready \<or> st = Error)"
proof -
  let ?r = "nextRef s"
  let ?s1 = "s\<lparr>heap := (heap s)(?r := requestedVM b (generateVMId rnd ms) t0),
                 nextRef := Suc ?r\<rparr>"
  obtain s2 calls where cr: "createRealVM ?r env net t1 ?s1 = (s2, calls)"
    by (cases "createRealVM ?r env net t1 ?s1") auto
  let ?s3 = "storeVM ?r s2"
  have h: "handleCreateVM (Inr b) env net rnd ms t0 t1 s
             = (json 201 (CreatedBody (vm_id (heap s2 ?r)) (status (heap s2 ?r))), ?s3, calls)"
    by (rule handleCreateVM_unfold [OF assms cr])
  have key: "activeVMs ?s3 (vm_id (heap s2 ?r)) = Some ?r"
    by (rule activeVMs_storeVM_id)
  have g: "handleGetVM (vm_id (heap s2 ?r)) t2 t3 ?s3 = (json 200 (VMBody (heap s2 ?r)), ?s3)"
    using handleGetVM_present [OF key] by simp
  have st: "status (heap s2 ?r) = Ready \<or> status (heap s2 ?r) = Error"
    by (rule createRealVM_result(2) [OF cr])
  from h g st show ?thesis by blast
qed


theorem create_then_get_witness:
  "truthy (cb_name webBody)
   \<and> (\<exists>vmId st s' calls vm.
         handleCreateVM (Inr webBody) railwayEnv railwayDown ''k3x'' ''lz1'' ''t0'' ''t1'' empty_store
           = (json 201 (CreatedBody vmId st), s', calls)
         \<and> handleGetVM vmId ''t2'' ''t3'' s' = (json 200 (VMBody vm), s')
         \<and> vm_id vm = vmId \<and> status vm = st \<and> (st = Ready \<or> st = Error))
   \<and> fst (handleCreateVM (Inr webBody) railwayEnv railwayDown ''k3x'' ''lz1'' ''t0'' ''t1'' empty_store)
        = json 201 (CreatedBody ''vm-k3x-lz1'' Error)"
  using create_then_get [of webBody railwayEnv railwayDown "''k3x''" "''lz1''" "''t0''" "''t1''"
          empty_store "''t2''" "''t3''"]
        create_down
  by (simp add: webBody_def railwayDown_def)

text \<open>
  C10. For every record created with a non-empty name whose creation ends in status
  \<^verbatim>\<open>ready\<close>, the stored record has a non-empty origin agent URL, so the proxy does not
  answer 400 \<^verbatim>\<open>No upstream agent URL\<close> for it; every descriptor a backend returns has
  a non-empty \<^verbatim>\<open>agentUrl\<close>, and \<^verbatim>\<open>createRealVM\<close> writes the descriptor's origin agent
  URL or, when that is absent or empty, its \<^verbatim>\<open>agentUrl\<close>.
\<close>

theorem created_ready_has_origin:
  assumes "truthy (cb_name b)"
    and "handleCreateVM (Inr b) env net rnd ms t0 t1 s = (resp, s', calls)"
    and "content resp = CreatedBody vmId Ready"
  shows "(\<exists>r u. lookupVM s' vmId = Some r \<and> status (heap s' r) = Ready
             \<and> originAgentUrl (heap s' r) = Some u \<and> u \<noteq> []
             \<and> fst (handleAgentProxy vmId action method bodyText net' s')
                  \<noteq> Inr (json 400 (ErrorBody ''No upstream agent URL'')))
       \<and> (\<forall>st vm res c. runBackend st vm env net = (Inr res, c) \<longrightarrow> r_agentUrl res \<noteq> [])
       \<and> (\<forall>vm res now. originAgentUrl (applyResult vm res now)
             = or_opt (r_originAgentUrl res) (Some (r_agentUrl res)))"
proof (intro conjI allI impI)
  let ?r = "nextRef s"
  let ?s1 = "s\<lparr>heap := (heap s)(?r := requestedVM b (generateVMId rnd ms) t0),
                 nextRef := Suc ?r\<rparr>"
  obtain s2 calls2 where cr: "createRealVM ?r env net t1 ?s1 = (s2, calls2)"
    by (cases "createRealVM ?r env net t1 ?s1") auto
  have h: "handleCreateVM (Inr b) env net rnd ms t0 t1 s
             = (json 201 (CreatedBody (vm_id (heap s2 ?r)) (status (heap s2 ?r))),
                storeVM ?r s2, calls2)"
    by (rule handleCreateVM_unfold [OF assms(1) cr])
  with assms(2,3) have s': "s' = storeVM ?r s2" and v: "vmId = vm_id (heap s2 ?r)"
    and rdy: "status (heap s2 ?r) = Ready"
    by (auto simp add: json_def)
  have key: "activeVMs s' vmId = Some ?r"
    unfolding s' v by (rule activeVMs_storeVM_id)
  then have lk: "lookupVM s' vmId = Some ?r" by (simp add: lookupVM_def)
  have "truthy (originAgentUrl (heap s2 ?r))"
    by (rule createRealVM_result(4) [OF cr rdy])
  then obtain u where u: "originAgentUrl (heap s' ?r) = Some u" "u \<noteq> []"
    using truthy_Some s' by fastforce
  have "fst (handleAgentProxy vmId action method bodyText net' s')
          \<noteq> Inr (json 400 (ErrorBody ''No upstream agent URL''))"
    by (rule handleAgentProxy_has_upstream [OF lk u])
  with lk rdy u s'
  show "\<exists>r u. lookupVM s' vmId = Some r \<and> status (heap s' r) = Ready
             \<and> originAgentUrl (heap s' r) = Some u \<and> u \<noteq> []
             \<and> fst (handleAgentProxy vmId action method bodyText net' s')
                  \<noteq> Inr (json 400 (ErrorBody ''No upstream agent URL''))"
    by auto
next
  fix st vm res c
  assume "runBackend st vm env net = (Inr res, c)"
  then show "r_agentUrl res \<noteq> []"
    by (simp add: runBackend_agentUrl workerBase_nonempty)
next
  fix vm res now
  show "originAgentUrl (applyResult vm res now) = or_opt (r_originAgentUrl res) (Some (r_agentUrl res))"
    by (simp add: applyResult_fields)
qed

theorem created_ready_has_origin_witness:
  "truthy (cb_name webBody)
   \<and> content (fst (handleCreateVM (Inr webBody) railwayEnv railwayUp ''k3x'' ''lz1'' ''t0'' ''t1'' empty_store))
        = CreatedBody ''vm-k3x-lz1'' Ready
   \<and> (\<exists>r u. lookupVM (fst (snd (handleCreateVM (Inr webBody) railwayEnv railwayUp ''k3x'' ''lz1'' ''t0'' ''t1'' empty_store)))
                 ''vm-k3x-lz1'' = Some r
           \<and> originAgentUrl (heap (fst (snd (handleCreateVM (Inr webBody) railwayEnv railwayUp ''k3x'' ''lz1'' ''t0'' ''t1'' empty_store))) r)
                 = Some u \<and> u \<noteq> [])"
proof -
  let ?out = "handleCreateVM (Inr webBody) railwayEnv railwayUp ''k3x'' ''lz1'' ''t0'' ''t1'' empty_store"
  have n: "truthy (cb_name webBody)" by (simp add: webBody_def)
  have c: "content (fst ?out) = CreatedBody ''vm-k3x-lz1'' Ready"
    by (simp add: create_up json_def)
  have e: "?out = (fst ?out, fst (snd ?out), snd (snd ?out))" by simp
  from created_ready_has_origin [OF n e c] n c show ?thesis by blast
qed

section \<open>Strategy selection\<close>

lemma startsWith_includesStr: "startsWith it p \<Longrightarrow> includesStr it p"
  by (cases it) (auto simp add: startsWith_def)

lemma selectDeploymentStrategy_index_ts:
  "selectDeploymentStrategy ''t3.medium'' = ''railway''"
  "selectDeploymentStrategy ''m5.large'' = ''cloudflare''"
  "selectDeploymentStrategy ''e2-standard-4'' = ''google_cloud''"
  by (simp_all add: selectDeploymentStrategy_def)

text \<open>
  C3, as stated: the selector follows the rule with prefixes. It does not: the source
  tests \<^verbatim>\<open>instanceType.includes('e2-')\<close>, so an instance type that has \<^verbatim>\<open>e2-\<close> after
  its first character goes to the cloud-managed backend, where the rule with prefixes
  gives the edge backend.
\<close>

theorem select_prefix_counterexample:
  "selectDeploymentStrategy_p1 ''n2-e2-x'' None = ''google_cloud''
   \<and> selectByPrefix_spec ''n2-e2-x'' None = ''cloudflare''"
  by (simp add: selectDeploymentStrategy_p1_def selectByPrefix_spec_def startsWith_def)

text \<open>
  C3, amended. The selector of \<^verbatim>\<open>part_001\<close> is a function of the instance type and
  the server id with values \<^verbatim>\<open>google_cloud\<close> (cloud-managed) and \<^verbatim>\<open>cloudflare\<close>
  (edge) only, and the first rule that applies decides: an instance type that contains
  \<^verbatim>\<open>e2-\<close> anywhere is cloud-managed; otherwise one that contains \<^verbatim>\<open>t3.\<close> is edge;
  otherwise the server id \<^verbatim>\<open>default-google-cloud-server\<close> is cloud-managed; otherwise
  edge. In particular a prefix \<^verbatim>\<open>e2-\<close> is cloud-managed, and the four examples of the
  specification hold.
\<close>

theorem selectDeploymentStrategy_p1_rules:
  "(selectDeploymentStrategy_p1 it sid = ''google_cloud''
      \<or> selectDeploymentStrategy_p1 it sid = ''cloudflare'')
   \<and> (includesStr it ''e2-'' \<longrightarrow> selectDeploymentStrategy_p1 it sid = ''google_cloud'')
   \<and> (\<not> includesStr it ''e2-'' \<and> includesStr it ''t3.''
        \<longrightarrow> selectDeploymentStrategy_p1 it sid = ''cloudflare'')
   \<and> (\<not> includesStr it ''e2-'' \<and> \<not> includesStr it ''t3.''
        \<and> sid = Some ''default-google-cloud-server''
        \<longrightarrow> selectDeploymentStrategy_p1 it sid = ''google_cloud'')
   \<and> (\<not> includesStr it ''e2-'' \<and> \<not> includesStr it ''t3.''
        \<and> sid \<noteq> Some ''default-google-cloud-server''
        \<longrightarrow> selectDeploymentStrategy_p1 it sid = ''cloudflare'')
   \<and> (startsWith it ''e2-'' \<longrightarrow> selectDeploymentStrategy_p1 it sid = ''google_cloud'')
   \<and> (startsWith it ''t3.'' \<and> \<not> includesStr it ''e2-''
        \<longrightarrow> selectDeploymentStrategy_p1 it sid = ''cloudflare'')
   \<and> selectDeploymentStrategy_p1 ''e2-standard-4'' None = ''google_cloud''
   \<and> selectDeploymentStrategy_p1 ''t3.medium'' None = ''cloudflare''
   \<and> selectDeploymentStrategy_p1 ''m5.large'' (Some ''default-google-cloud-server'') = ''google_cloud''
   \<and> selectDeploymentStrategy_p1 ''m5.large'' None = ''cloudflare''"
  by (auto simp add: selectDeploymentStrategy_p1_def dest: startsWith_includesStr)

theorem selectDeploymentStrategy_p1_rules_witness:
  "includesStr ''e2-standard-4'' ''e2-'' \<and> startsWith ''e2-standard-4'' ''e2-''
   \<and> selectDeploymentStrategy_p1 ''e2-standard-4'' (Some ''default-cloud-server'') = ''google_cloud''
   \<and> \<not> includesStr ''t3.medium'' ''e2-'' \<and> includesStr ''t3.medium'' ''t3.''
   \<and> startsWith ''t3.medium'' ''t3.''
   \<and> selectDeploymentStrategy_p1 ''t3.medium'' (Some ''default-google-cloud-server'') = ''cloudflare''
   \<and> \<not> includesStr ''m5.large'' ''e2-'' \<and> \<not> includesStr ''m5.large'' ''t3.''
   \<and> selectDeploymentStrategy_p1 ''m5.large'' (Some ''default-google-cloud-server'') = ''google_cloud''
   \<and> selectDeploymentStrategy_p1 ''m5.large'' (Some ''default-railway-server'') = ''cloudflare''
   \<and> includesStr ''n2-e2-x'' ''e2-'' \<and> \<not> startsWith ''n2-e2-x'' ''e2-''
   \<and> selectDeploymentStrategy_p1 ''n2-e2-x'' None = ''google_cloud''"
  using selectDeploymentStrategy_p1_rules [of "''e2-standard-4''" "Some ''default-cloud-server''"]
        selectDeploymentStrategy_p1_rules [of "''t3.medium''" "Some ''default-google-cloud-server''"]
        selectDeploymentStrategy_p1_rules [of "''m5.large''" "Some ''default-google-cloud-server''"]
        selectDeploymentStrategy_p1_rules [of "''m5.large''" "Some ''default-railway-server''"]
        selectDeploymentStrategy_p1_rules [of "''n2-e2-x''" None]
  by (simp add: startsWith_def)

section \<open>Dispatcher\<close>

lemmas route_defs = fetch_def fetch_p0_def fetch_p1_def startsWith_def endsWith_def pathId_def
  matchVm_def matchAgentAction_def idChar_def eval_nat_numeral

lemma handleGetVM_json: "\<exists>vm s'. handleGetVM vmId t1 t2 s = (json 200 (VMBody vm), s')"
  by (auto simp add: handleGetVM_def getVMFromStorage_def alloc_def Let_def split: option.splits)

lemma fetch_p0_novnc_ex:
  "fetch_p0 ''GET'' ''/vms/abc/novnc'' = NoVNC (Some ''abc'')"
  "fetch_p1 ''GET'' ''/vms/abc/novnc'' = NoVNC (Some ''abc'')"
  by (simp_all add: route_defs)

lemma fetch_agent_status_shadowed:
  "fetch ''GET'' ''/vms/abc/agent/status'' = GetVM (Some ''abc'')"
  "fetch_p0 ''GET'' ''/vms/abc/agent/status'' = GetVM (Some ''abc'')"
  "fetch_p1 ''GET'' ''/vms/abc/agent/status'' = GetVM (Some ''abc'')"
  "fetch_p1 ''POST'' ''/vms/abc/agent/status'' = AgentProxy (Some ''abc'') ''status''"
  by (simp_all add: route_defs)

lemma endsWith_append: "endsWith (a @ p) p"
  by (simp add: endsWith_def)

lemma startsWith_append: "startsWith (p @ a) p"
  by (simp add: startsWith_def)

lemma matchVm_last:
  assumes "matchVm rest path" and "rest \<noteq> []"
  shows "last path = last rest"
proof -
  from assms(1) have d: "dropWhile idChar (drop 5 path) = rest"
    by (simp add: matchVm_def)
  have "path = take 5 path @ takeWhile idChar (drop 5 path) @ dropWhile idChar (drop 5 path)"
    by simp
  with d have "path = (take 5 path @ takeWhile idChar (drop 5 path)) @ rest"
    by simp
  then have "last path = last ((take 5 path @ takeWhile idChar (drop 5 path)) @ rest)"
    by simp
  also have "\<dots> = last rest" using assms(2) by (rule last_appendR)
  finally show ?thesis .
qed

lemma novnc_path_last: "last (''/vms/'' @ i @ ''/novnc'') = CHR ''c''"
  by simp

lemma novnc_not_matchVm:
  assumes "rest \<noteq> []" and "last rest \<noteq> CHR ''c''"
  shows "\<not> matchVm rest (''/vms/'' @ i @ ''/novnc'')"
  using matchVm_last [of rest "''/vms/'' @ i @ ''/novnc''"] assms novnc_path_last [of i]
  by auto

lemma fetch_p0_novnc:
  assumes "method \<noteq> ''OPTIONS''"
  shows "fetch_p0 method (''/vms/'' @ i @ ''/novnc'') = NoVNC (pathId (''/vms/'' @ i @ ''/novnc''))"
proof -
  have e: "endsWith (''/vms/'' @ i @ ''/novnc'') ''/novnc''"
    using endsWith_append [of "''/vms/'' @ i" "''/novnc''"] by simp
  have s: "startsWith (''/vms/'' @ i @ ''/novnc'') ''/vms/''"
    by (rule startsWith_append)
  show ?thesis
    unfolding fetch_p0_def using assms e s by simp
qed

lemma fetch_p1_novnc:
  assumes "method \<noteq> ''OPTIONS''"
  shows "fetch_p1 method (''/vms/'' @ i @ ''/novnc'') = NoVNC (pathId (''/vms/'' @ i @ ''/novnc''))"
proof -
  have e: "endsWith (''/vms/'' @ i @ ''/novnc'') ''/novnc''"
    using endsWith_append [of "''/vms/'' @ i" "''/novnc''"] by simp
  have s: "startsWith (''/vms/'' @ i @ ''/novnc'') ''/vms/''"
    by (rule startsWith_append)
  have n: "\<not> matchVm ''/scripts'' (''/vms/'' @ i @ ''/novnc'')"
    "\<not> matchVm ''/metrics'' (''/vms/'' @ i @ ''/novnc'')"
    "\<not> matchVm ''/events'' (''/vms/'' @ i @ ''/novnc'')"
    "\<not> matchVm ''/stop'' (''/vms/'' @ i @ ''/novnc'')"
    "\<not> matchVm ''/status'' (''/vms/'' @ i @ ''/novnc'')"
    by (rule novnc_not_matchVm; simp)+
  show ?thesis
    unfolding fetch_p1_def using assms e s n by simp
qed

text \<open>
  C4. \<^verbatim>\<open>GET /vms/abc/novnc\<close> in \<^verbatim>\<open>src/src/index.ts\<close>: the generic
  \<^verbatim>\<open>startsWith('/vms/') && method === 'GET'\<close> test comes before the NoVNC test, so the
  request is given to \<^verbatim>\<open>handleGetVM\<close> and answered with the record as JSON, not with
  the page. (\<open>fetch_p0_novnc\<close> and \<open>fetch_p1_novnc\<close> above: the other two variants
  give it to \<^verbatim>\<open>handleNoVNC\<close>.)
\<close>

theorem fetch_novnc_misrouted:
  "fetch ''GET'' ''/vms/abc/novnc'' = GetVM (Some ''abc'')
   \<and> (\<exists>vm s'. respond fetch ''GET'' ''/vms/abc/novnc'' t1 t2 s
          = Some (\<lparr>code = 200, contentType = ''application/json'', content = VMBody vm\<rparr>, s'))"
proof -
  have r: "fetch ''GET'' ''/vms/abc/novnc'' = GetVM (Some ''abc'')"
    by (simp add: route_defs)
  from handleGetVM_json [of "''abc''" t1 t2 s] r show ?thesis
    by (auto simp add: respond_def json_def)
qed


section \<open>Alias keys\<close>

lemma prefixed_aliasKey: "prefixed (aliasKey i)"
  by (simp add: prefixed_def aliasKey_def startsWith_def)

lemma aliasKey_inject [simp]: "aliasKey i = aliasKey j \<longleftrightarrow> i = j"
  by (simp add: aliasKey_def)

lemma aliasKey_neq [simp]: "aliasKey i \<noteq> i"
  by (simp add: aliasKey_def)

lemma storeVM_keys:
  "activeVMs (storeVM r s) (vm_id (heap s r)) = Some r
   \<and> activeVMs (storeVM r s) (aliasKey (vm_id (heap s r))) = Some r"
  by (simp add: activeVMs_storeVM_id activeVMs_storeVM_alias)

lemma handleDeleteVM_keys:
  "activeVMs (snd (handleDeleteVM vmId s)) vmId = None
   \<and> activeVMs (snd (handleDeleteVM vmId s)) (aliasKey vmId) = None"
  by (auto simp add: handleDeleteVM_def lookupVM_def split: option.splits)

lemma plainIdsAgree_upd:
  assumes "plainIdsAgree s" and "\<not> prefixed k"
    and "\<And>i. i \<noteq> k \<Longrightarrow> i \<noteq> aliasKey k \<Longrightarrow> activeVMs s' i = activeVMs s i"
    and "activeVMs s' k = activeVMs s' (aliasKey k)"
  shows "plainIdsAgree s'"
  unfolding plainIdsAgree_def aliasAgree_def
proof (intro allI impI)
  fix i assume np: "\<not> prefixed i"
  show "activeVMs s' i = activeVMs s' (aliasKey i)"
  proof (cases "i = k")
    case True
    with assms(4) show ?thesis by simp
  next
    case False
    from np have a: "i \<noteq> aliasKey k" using prefixed_aliasKey [of k] by auto
    from assms(2) have b: "aliasKey i \<noteq> k" using prefixed_aliasKey [of i] by auto
    from False have c: "aliasKey i \<noteq> aliasKey k" by simp
    have "activeVMs s' i = activeVMs s i" by (rule assms(3) [OF False a])
    moreover have "activeVMs s' (aliasKey i) = activeVMs s (aliasKey i)" by (rule assms(3) [OF b c])
    moreover have "activeVMs s i = activeVMs s (aliasKey i)"
      using assms(1) np by (simp add: plainIdsAgree_def aliasAgree_def)
    ultimately show ?thesis by simp
  qed
qed

lemma plainIdsAgree_storeVM:
  assumes "plainIdsAgree s" and "\<not> prefixed (vm_id (heap s r))"
  shows "plainIdsAgree (storeVM r s)"
proof (rule plainIdsAgree_upd [OF assms])
  fix i assume "i \<noteq> vm_id (heap s r)" "i \<noteq> aliasKey (vm_id (heap s r))"
  then show "activeVMs (storeVM r s) i = activeVMs s i"
    by (simp add: storeVM_def Let_def)
next
  show "activeVMs (storeVM r s) (vm_id (heap s r)) = activeVMs (storeVM r s) (aliasKey (vm_id (heap s r)))"
    using storeVM_keys [of r s] by simp
qed

lemma plainIdsAgree_handleDeleteVM:
  assumes "plainIdsAgree s" and "\<not> prefixed vmId"
  shows "plainIdsAgree (snd (handleDeleteVM vmId s))"
proof (rule plainIdsAgree_upd [OF assms])
  fix i assume "i \<noteq> vmId" "i \<noteq> aliasKey vmId"
  then show "activeVMs (snd (handleDeleteVM vmId s)) i = activeVMs s i"
    by (auto simp add: handleDeleteVM_def split: option.splits)
next
  show "activeVMs (snd (handleDeleteVM vmId s)) vmId = activeVMs (snd (handleDeleteVM vmId s)) (aliasKey vmId)"
    using handleDeleteVM_keys [of vmId s] by simp
qed

lemma plainIdsAgree_getVMFromStorage:
  assumes "plainIdsAgree s" and "\<not> prefixed vmId"
  shows "plainIdsAgree (snd (getVMFromStorage vmId t1 t2 s))"
proof (cases "lookupVM s vmId")
  case (Some r)
  then have "snd (getVMFromStorage vmId t1 t2 s) = s"
    by (auto simp add: getVMFromStorage_def lookupVM_def split: option.splits)
  with assms(1) show ?thesis by simp
next
  case None
  let ?s1 = "snd (alloc (mockVM vmId t1 t2) s)"
  have g: "snd (getVMFromStorage vmId t1 t2 s) = storeVM (nextRef s) ?s1"
    using None by (simp add: getVMFromStorage_def lookupVM_None alloc_def)
  have p: "plainIdsAgree ?s1"
    using assms(1) by (simp add: plainIdsAgree_def aliasAgree_def alloc_def)
  have i: "vm_id (heap ?s1 (nextRef s)) = vmId"
    by (simp add: alloc_def mockVM_def)
  show ?thesis unfolding g
    by (rule plainIdsAgree_storeVM [OF p]) (simp add: i assms(2))
qed

lemma afterRestart_eq: "afterRestart = (empty_store, [''abc'' \<mapsto> rowOf upVM])"
  by (simp add: afterRestart_def storeVM_p1_def alloc_def empty_store_def d1Env_def upVM_def)

lemma handleDeleteVM_by_alias_key:
  "fst (handleDeleteVM ''working-vm-abc'' upStore) = json 200 (DeletedBody ''working-vm-abc'')
   \<and> activeVMs (snd (handleDeleteVM ''working-vm-abc'' upStore)) ''abc'' = Some 0
   \<and> activeVMs (snd (handleDeleteVM ''working-vm-abc'' upStore)) (aliasKey ''abc'') = None"
  by (simp add: handleDeleteVM_def lookupVM_def upStore_def storeVM_def alloc_def empty_store_def
      upVM_def blankVM_def aliasKey_def Let_def)

text \<open>
  C5. \<^verbatim>\<open>getVMFromStorage\<close> of \<^verbatim>\<open>part_001\<close> on an id that is in the D1 table and not in
  the map: the row is put into the map under the primary key only
  (\<^verbatim>\<open>activeVMs.set(vmId, vm)\<close>), so after this operation the primary key holds the
  record and the alias key holds nothing. (\<open>storeVM_keys\<close> and
  \<open>handleDeleteVM_keys\<close> above: put writes both keys with the same object and delete
  removes both; \<open>plainIdsAgree_storeVM\<close>, \<open>plainIdsAgree_handleDeleteVM\<close> and
  \<open>plainIdsAgree_getVMFromStorage\<close>: the operations of \<^verbatim>\<open>index.ts\<close> keep the
  invariant at all ids without the alias prefix.)
\<close>

theorem getVMFromStorage_p1_cache_drops_alias:
  "fst (getVMFromStorage_p1 ''abc'' ''t1'' ''t2'' d1Env True True afterRestart) = Some 0
   \<and> heap (fst (snd (getVMFromStorage_p1 ''abc'' ''t1'' ''t2'' d1Env True True afterRestart))) 0
        = rowOf upVM
   \<and> activeVMs (fst (snd (getVMFromStorage_p1 ''abc'' ''t1'' ''t2'' d1Env True True afterRestart)))
        ''abc'' = Some 0
   \<and> activeVMs (fst (snd (getVMFromStorage_p1 ''abc'' ''t1'' ''t2'' d1Env True True afterRestart)))
        (aliasKey ''abc'') = None"
  by (simp add: afterRestart_eq getVMFromStorage_p1_def empty_store_def alloc_def d1Env_def
      aliasKey_def)

section \<open>Get after delete\<close>

lemma handleGetVM_absent:
  assumes "activeVMs s vmId = None" and "activeVMs s (aliasKey vmId) = None"
  shows "handleGetVM vmId t1 t2 s
           = (json 200 (VMBody (mockVM vmId t1 t2)),
              storeVM (nextRef s) (snd (alloc (mockVM vmId t1 t2) s)))"
  using assms by (simp add: handleGetVM_def getVMFromStorage_def alloc_def Let_def)

lemma handleDeleteVM_absent:
  assumes "activeVMs s vmId = None" and "activeVMs s (aliasKey vmId) = None"
  shows "handleDeleteVM vmId s = (json 404 (ErrorBody ''VM not found''), s)"
  using assms by (simp add: handleDeleteVM_def lookupVM_def)

lemma handleDeleteVM_stopped:
  assumes "lookupVM s vmId = Some r"
  shows "status (heap (snd (handleDeleteVM vmId s)) r) = Stopped"
  using assms by (simp add: handleDeleteVM_def)

lemma handleGetVM_p1_after_delete:
  "fst (handleDeleteVM_p1 ''abc'' (storeVM_p1 0 d1Env True (snd (alloc upVM empty_store), Map.empty)))
     = json 200 (DeletedBody ''abc'')"
  "fst (handleGetVM_p1 ''abc'' ''t1'' ''t2'' d1Env True True
         (snd (handleDeleteVM_p1 ''abc''
                 (storeVM_p1 0 d1Env True (snd (alloc upVM empty_store), Map.empty)))))
     = json 200 (VMBody (rowOf upVM))"
  "fst (handleGetVM_p1 ''abc'' ''t1'' ''t2'' noD1Env True True
         (snd (handleDeleteVM_p1 ''abc''
                 (storeVM_p1 0 noD1Env True (snd (alloc upVM empty_store), Map.empty)))))
     = json 404 (ErrorBody ''VM not found'')"
  by (simp_all add: handleGetVM_p1_def getVMFromStorage_p1_def handleDeleteVM_p1_def
      handleDeleteVM_def lookupVM_def storeVM_p1_def storeVM_def alloc_def empty_store_def
      d1Env_def noD1Env_def upVM_def blankVM_def aliasKey_def Let_def rowOf_def orNull_def)

lemma handleGetVM_enh_after_delete:
  "handleGetVM_enh vmId (snd (handleDeleteVM vmId s)) = json 404 (ErrorBody ''VM not found'')"
  using handleDeleteVM_keys [of vmId s]
  by (simp add: handleGetVM_enh_def lookupVM_def)

text \<open>
  C6, as stated: a get on an id that is not in the store answers 404. In \<^verbatim>\<open>index.ts\<close>
  it answers 200 with the placeholder record, on a fresh worker and right after a
  successful delete of the id.
\<close>

theorem get_unknown_counterexample:
  "activeVMs empty_store ''abc'' = None \<and> activeVMs empty_store (aliasKey ''abc'') = None
   \<and> fst (handleGetVM ''abc'' ''t1'' ''t2'' empty_store)
        = json 200 (VMBody (mockVM ''abc'' ''t1'' ''t2''))
   \<and> fst (handleDeleteVM ''abc'' upStore) = json 200 (DeletedBody ''abc'')
   \<and> fst (handleGetVM ''abc'' ''t1'' ''t2'' (snd (handleDeleteVM ''abc'' upStore)))
        = json 200 (VMBody (mockVM ''abc'' ''t1'' ''t2''))"
proof -
  have e: "activeVMs empty_store ''abc'' = None" "activeVMs empty_store (aliasKey ''abc'') = None"
    by (simp_all add: empty_store_def)
  have d: "fst (handleDeleteVM ''abc'' upStore) = json 200 (DeletedBody ''abc'')"
    by (simp add: handleDeleteVM_def upStore_lookup)
  show ?thesis
    using e d handleGetVM_absent [OF e] handleDeleteVM_keys [of "''abc''" upStore]
      handleGetVM_absent [of "snd (handleDeleteVM ''abc'' upStore)" "''abc''" "''t1''" "''t2''"]
    by simp
qed

text \<open>
  C6, amended. For an id present under neither its primary nor its alias key,
  \<^verbatim>\<open>GET /vms/{id}\<close> answers 200 with a new placeholder record (\<^verbatim>\<open>Mock VM {id}\<close>, status
  \<^verbatim>\<open>ready\<close>) and stores it under both keys; only \<^verbatim>\<open>DELETE /vms/{id}\<close> answers 404 there.
  Right after a successful delete both keys of the id are absent, and a get on the id
  answers the placeholder, which is not the deleted record.
\<close>

theorem get_unknown_placeholder:
  "(activeVMs s vmId = None \<and> activeVMs s (aliasKey vmId) = None \<longrightarrow>
      (\<exists>s'. handleGetVM vmId t1 t2 s = (json 200 (VMBody (mockVM vmId t1 t2)), s')
            \<and> activeVMs s' vmId = Some (nextRef s)
            \<and> activeVMs s' (aliasKey vmId) = Some (nextRef s)
            \<and> heap s' (nextRef s) = mockVM vmId t1 t2)
      \<and> handleDeleteVM vmId s = (json 404 (ErrorBody ''VM not found''), s))
   \<and> (fst (handleDeleteVM vmId s) = json 200 (DeletedBody vmId) \<longrightarrow>
        activeVMs (snd (handleDeleteVM vmId s)) vmId = None
        \<and> activeVMs (snd (handleDeleteVM vmId s)) (aliasKey vmId) = None
        \<and> fst (handleGetVM vmId t1 t2 (snd (handleDeleteVM vmId s)))
             = json 200 (VMBody (mockVM vmId t1 t2))
        \<and> (\<forall>r. lookupVM s vmId = Some r \<longrightarrow>
               heap (snd (handleDeleteVM vmId s)) r \<noteq> mockVM vmId t1 t2))"
proof (intro conjI impI allI)
  assume a: "activeVMs s vmId = None \<and> activeVMs s (aliasKey vmId) = None"
  let ?s' = "storeVM (nextRef s) (snd (alloc (mockVM vmId t1 t2) s))"
  have h: "heap (snd (alloc (mockVM vmId t1 t2) s)) (nextRef s) = mockVM vmId t1 t2"
    by (simp add: alloc_def)
  then have i: "vm_id (heap (snd (alloc (mockVM vmId t1 t2) s)) (nextRef s)) = vmId"
    by (simp add: mockVM_def)
  have "handleGetVM vmId t1 t2 s = (json 200 (VMBody (mockVM vmId t1 t2)), ?s')"
    using a by (simp add: handleGetVM_absent)
  moreover have "activeVMs ?s' vmId = Some (nextRef s)"
    using activeVMs_storeVM_id [of "nextRef s" "snd (alloc (mockVM vmId t1 t2) s)"] i by simp
  moreover have "activeVMs ?s' (aliasKey vmId) = Some (nextRef s)"
    using activeVMs_storeVM_alias [of "nextRef s" "snd (alloc (mockVM vmId t1 t2) s)"] i by simp
  moreover have "heap ?s' (nextRef s) = mockVM vmId t1 t2"
    using h by simp
  ultimately show "\<exists>s'. handleGetVM vmId t1 t2 s = (json 200 (VMBody (mockVM vmId t1 t2)), s')
            \<and> activeVMs s' vmId = Some (nextRef s)
            \<and> activeVMs s' (aliasKey vmId) = Some (nextRef s)
            \<and> heap s' (nextRef s) = mockVM vmId t1 t2"
    by blast
  show "handleDeleteVM vmId s = (json 404 (ErrorBody ''VM not found''), s)"
    using a by (simp add: handleDeleteVM_absent)
next
  let ?s1 = "snd (handleDeleteVM vmId s)"
  show k1: "activeVMs ?s1 vmId = None" using handleDeleteVM_keys [of vmId s] by simp
  show k2: "activeVMs ?s1 (aliasKey vmId) = None" using handleDeleteVM_keys [of vmId s] by simp
  show "fst (handleGetVM vmId t1 t2 ?s1) = json 200 (VMBody (mockVM vmId t1 t2))"
    using handleGetVM_absent [OF k1 k2] by simp
next
  fix r assume "lookupVM s vmId = Some r"
  then have "status (heap (snd (handleDeleteVM vmId s)) r) = Stopped"
    by (rule handleDeleteVM_stopped)
  moreover have "status (mockVM vmId t1 t2) = Ready" by (simp add: mockVM_def)
  ultimately show "heap (snd (handleDeleteVM vmId s)) r \<noteq> mockVM vmId t1 t2" by auto
qed

theorem get_unknown_placeholder_witness:
  "activeVMs empty_store ''abc'' = None \<and> activeVMs empty_store (aliasKey ''abc'') = None
   \<and> (\<exists>s'. handleGetVM ''abc'' ''t1'' ''t2'' empty_store
              = (json 200 (VMBody (mockVM ''abc'' ''t1'' ''t2'')), s')
           \<and> activeVMs s' ''abc'' = Some 0 \<and> activeVMs s' (aliasKey ''abc'') = Some 0)
   \<and> handleDeleteVM ''abc'' empty_store = (json 404 (ErrorBody ''VM not found''), empty_store)
   \<and> fst (handleDeleteVM ''abc'' upStore) = json 200 (DeletedBody ''abc'')
   \<and> lookupVM upStore ''abc'' = Some 0
   \<and> activeVMs (snd (handleDeleteVM ''abc'' upStore)) ''abc'' = None
   \<and> activeVMs (snd (handleDeleteVM ''abc'' upStore)) (aliasKey ''abc'') = None
   \<and> fst (handleGetVM ''abc'' ''t1'' ''t2'' (snd (handleDeleteVM ''abc'' upStore)))
        = json 200 (VMBody (mockVM ''abc'' ''t1'' ''t2''))
   \<and> heap (snd (handleDeleteVM ''abc'' upStore)) 0 \<noteq> mockVM ''abc'' ''t1'' ''t2''"
proof -
  have e: "activeVMs empty_store ''abc'' = None \<and> activeVMs empty_store (aliasKey ''abc'') = None"
    by (simp add: empty_store_def)
  have n: "nextRef empty_store = 0" by (simp add: empty_store_def)
  have d: "fst (handleDeleteVM ''abc'' upStore) = json 200 (DeletedBody ''abc'')"
    by (simp add: handleDeleteVM_def upStore_lookup)
  show ?thesis
    using get_unknown_placeholder [of empty_store "''abc''" "''t1''" "''t2''"]
          get_unknown_placeholder [of upStore "''abc''" "''t1''" "''t2''"]
          e n d upStore_lookup
    by auto
qed



section \<open>Provisioning outcomes\<close>

lemma createGoogleCloudVM_p1_never_throws:
  "\<exists>d c. createGoogleCloudVM_p1 vm env net = (Inr d, c)"
  by (auto simp add: createGoogleCloudVM_p1_def split: prod.splits sum.splits)

lemma createGoogleCloudVM_fixed_never_throws:
  "\<exists>d c. createGoogleCloudVM_fixed vm env net = (Inr d, c)"
  by (auto simp add: createGoogleCloudVM_fixed_def split: prod.splits sum.splits)

lemma createGoogleCloudVM_no_credentials:
  assumes "\<not> truthy (GOOGLE_CLOUD_PROJECT_ID env) \<or> \<not> truthy (GOOGLE_CLOUD_ACCESS_TOKEN env)"
  shows "createGoogleCloudVM_p1 vm env net = (Inr (createCloudflareVM_p1 vm), [])"
    and "createGoogleCloudVM_fixed vm env net = (Inr (createCloudflareVM_p1 vm), [])"
  using assms
  by (auto simp add: createGoogleCloudVM_p1_def createGoogleCloudVM_try_p1_def
      createGoogleCloudVM_fixed_def createGoogleCloudVM_try_fixed_def)

lemma createGoogleCloudVM_endpoint_fails:
  assumes "GOOGLE_CLOUD_PROJECT_ID env = Some pid" and "pid \<noteq> []"
    and "truthy (GOOGLE_CLOUD_ACCESS_TOKEN env)"
    and "\<forall>req resp. net req = Inr resp \<longrightarrow> \<not> ok resp"
  shows "fst (createGoogleCloudVM_p1 vm env net) = Inr (mockGCPVM vm pid)"
    and "fst (createGoogleCloudVM_fixed vm env net) = Inr (mockGCPVM vm pid)"
  using assms
  by (auto simp add: createGoogleCloudVM_p1_def createGoogleCloudVM_try_p1_def
      createGoogleCloudVM_fixed_def createGoogleCloudVM_try_fixed_def Let_def
      split: sum.splits)

lemma runBackend_p1_never_throws:
  "\<exists>d v c. runBackend_p1 st vm env net = (Inr (d, v), c)"
  using createGoogleCloudVM_p1_never_throws [of vm env net]
  by (auto simp add: runBackend_p1_def)

lemma createRealVM_p1_ready:
  "status (heap (fst (fst (createRealVM_p1 r env net now d1ok st))) r) = Ready"
proof -
  obtain s db where st: "st = (s, db)" by (cases st)
  let ?sel = "selectDeploymentStrategy_p1 (or_else (instanceType (heap s r)) ''t3.medium'')
                (serverId (heap s r))"
  obtain d v c where rb: "runBackend_p1 ?sel (heap s r) env net = (Inr (d, v), c)"
    using runBackend_p1_never_throws by blast
  show ?thesis
    by (simp add: st createRealVM_p1_def Let_def rb storeVM_p1_def applyResult_fields)
qed

lemma createRailwayVM_throws:
  assumes "truthy (RAILWAY_VM_SERVER_URL env)"
    and "\<forall>req resp. net req = Inr resp \<longrightarrow> \<not> ok resp"
  shows "\<exists>msg c. createRailwayVM vm env net = (Inl msg, c)"
  using assms
  by (auto simp add: createRailwayVM_def Let_def split: sum.splits)

lemma createRealVM_error_message:
  assumes "status (heap (fst (createRealVM r env net now s)) r) = Error"
  shows "\<exists>msg c. runBackend (selectDeploymentStrategy (or_else (instanceType (heap s r)) ''t3.medium''))
                    (heap s r) env net = (Inl msg, c)
               \<and> error (heap (fst (createRealVM r env net now s)) r) = Some msg"
  using assms
  by (auto simp add: createRealVM_def Let_def applyResult_fields split: prod.splits sum.splits)

lemma createRealVM_status:
  "status (heap (fst (createRealVM r env net now s)) r) = Ready
   \<or> status (heap (fst (createRealVM r env net now s)) r) = Error"
  using createRealVM_result(2) [of r env net now s "fst (createRealVM r env net now s)"
       "snd (createRealVM r env net now s)"]
  by simp


lemma show_nat_503: "show_nat 503 = ''503''"
  by (simp add: show_nat.simps digitChar_def)


lemma t3_railway: "selectDeploymentStrategy (or_else (instanceType t3VM) ''t3.medium'') = ''railway''"
  by (simp add: t3VM_def requestedVM_def webBody_def selectDeploymentStrategy_def)

text \<open>
  C2, as stated: an error of a backend becomes the edge descriptor and the record ends
  in \<^verbatim>\<open>error\<close> only if the edge backend throws. In \<^verbatim>\<open>index.ts\<close> the Railway backend
  has no \<^verbatim>\<open>try\<close>: with its server configured, a failed connection and a 503 answer both
  leave \<^verbatim>\<open>createRailwayVM\<close> as an exception, the edge backend is never called, and the
  record ends in \<^verbatim>\<open>error\<close> with that message and without a descriptor.
\<close>

theorem backend_error_counterexample:
  "status (heap (fst (createRealVM 0 railwayEnv railwayDown ''t1'' (snd (alloc t3VM empty_store)))) 0)
     = Error
   \<and> error (heap (fst (createRealVM 0 railwayEnv railwayDown ''t1'' (snd (alloc t3VM empty_store)))) 0)
     = Some ''connect failed''
   \<and> containerId (heap (fst (createRealVM 0 railwayEnv railwayDown ''t1'' (snd (alloc t3VM empty_store)))) 0)
     = None
   \<and> status (heap (fst (createRealVM 0 railwayEnv railwayBusy ''t1'' (snd (alloc t3VM empty_store)))) 0)
     = Error
   \<and> error (heap (fst (createRealVM 0 railwayEnv railwayBusy ''t1'' (snd (alloc t3VM empty_store)))) 0)
     = Some ''Railway VM server create failed: 503 busy''"
  by (simp add: createRealVM_def alloc_def empty_store_def selectDeploymentStrategy_def
      runBackend_def createRailwayVM_def railwayEnv_def railwayDown_def railwayBusy_def ok_def
      Let_def show_nat_503 t3VM_def requestedVM_def webBody_def blankVM_def)

text \<open>
  C2, amended. Provisioning ends in \<^verbatim>\<open>ready\<close> or \<^verbatim>\<open>error\<close>; it ends in \<^verbatim>\<open>error\<close> only
  if the selected backend throws, and then the error field holds the caught message.
  In \<^verbatim>\<open>index.ts\<close> the Railway backend throws when its configured server gives no ok
  answer (unreachable or not 2xx). The cloud-managed backend of \<^verbatim>\<open>part_001\<close> (and of
  \<^verbatim>\<open>createGoogleCloudVM_fixed.js\<close>) never throws: without credentials it returns the
  edge descriptor, and with credentials and no ok answer from the container service the
  simulated cloud descriptor; provisioning in \<^verbatim>\<open>part_001\<close> always ends in \<^verbatim>\<open>ready\<close>.
\<close>

theorem provisioning_outcomes:
  "(status (heap (fst (createRealVM r env net now s)) r) = Ready
      \<or> status (heap (fst (createRealVM r env net now s)) r) = Error)
   \<and> (status (heap (fst (createRealVM r env net now s)) r) = Error \<longrightarrow>
        (\<exists>msg c. runBackend (selectDeploymentStrategy (or_else (instanceType (heap s r)) ''t3.medium''))
                    (heap s r) env net = (Inl msg, c)
                 \<and> error (heap (fst (createRealVM r env net now s)) r) = Some msg))
   \<and> (truthy (RAILWAY_VM_SERVER_URL env) \<and> (\<forall>req resp. net req = Inr resp \<longrightarrow> \<not> ok resp) \<longrightarrow>
        (\<exists>msg c. createRailwayVM vm env net = (Inl msg, c)))
   \<and> status (heap (fst (fst (createRealVM_p1 r cenv net now d1ok st))) r) = Ready
   \<and> (\<exists>d c. createGoogleCloudVM_p1 vm cenv net = (Inr d, c))
   \<and> (\<exists>d c. createGoogleCloudVM_fixed vm cenv net = (Inr d, c))
   \<and> (\<not> truthy (GOOGLE_CLOUD_PROJECT_ID cenv) \<or> \<not> truthy (GOOGLE_CLOUD_ACCESS_TOKEN cenv) \<longrightarrow>
        createGoogleCloudVM_p1 vm cenv net = (Inr (createCloudflareVM_p1 vm), [])
        \<and> createGoogleCloudVM_fixed vm cenv net = (Inr (createCloudflareVM_p1 vm), []))
   \<and> (GOOGLE_CLOUD_PROJECT_ID cenv = Some pid \<and> pid \<noteq> [] \<and> truthy (GOOGLE_CLOUD_ACCESS_TOKEN cenv)
        \<and> (\<forall>req resp. net req = Inr resp \<longrightarrow> \<not> ok resp) \<longrightarrow>
        fst (createGoogleCloudVM_p1 vm cenv net) = Inr (mockGCPVM vm pid)
        \<and> fst (createGoogleCloudVM_fixed vm cenv net) = Inr (mockGCPVM vm pid))"
proof (intro conjI impI)
  show "status (heap (fst (createRealVM r env net now s)) r) = Ready
      \<or> status (heap (fst (createRealVM r env net now s)) r) = Error"
    by (rule createRealVM_status)
next
  assume "status (heap (fst (createRealVM r env net now s)) r) = Error"
  then show "\<exists>msg c. runBackend (selectDeploymentStrategy (or_else (instanceType (heap s r)) ''t3.medium''))
                    (heap s r) env net = (Inl msg, c)
                 \<and> error (heap (fst (createRealVM r env net now s)) r) = Some msg"
    by (rule createRealVM_error_message)
next
  assume "truthy (RAILWAY_VM_SERVER_URL env) \<and> (\<forall>req resp. net req = Inr resp \<longrightarrow> \<not> ok resp)"
  then show "\<exists>msg c. createRailwayVM vm env net = (Inl msg, c)"
    using createRailwayVM_throws by blast
next
  show "status (heap (fst (fst (createRealVM_p1 r cenv net now d1ok st))) r) = Ready"
    by (rule createRealVM_p1_ready)
next
  show "\<exists>d c. createGoogleCloudVM_p1 vm cenv net = (Inr d, c)"
    by (rule createGoogleCloudVM_p1_never_throws)
next
  show "\<exists>d c. createGoogleCloudVM_fixed vm cenv net = (Inr d, c)"
    by (rule createGoogleCloudVM_fixed_never_throws)
next
  assume a: "\<not> truthy (GOOGLE_CLOUD_PROJECT_ID cenv) \<or> \<not> truthy (GOOGLE_CLOUD_ACCESS_TOKEN cenv)"
  show "createGoogleCloudVM_p1 vm cenv net = (Inr (createCloudflareVM_p1 vm), [])"
    by (rule createGoogleCloudVM_no_credentials(1) [OF a])
  show "createGoogleCloudVM_fixed vm cenv net = (Inr (createCloudflareVM_p1 vm), [])"
    by (rule createGoogleCloudVM_no_credentials(2) [OF a])
next
  assume a: "GOOGLE_CLOUD_PROJECT_ID cenv = Some pid \<and> pid \<noteq> [] \<and> truthy (GOOGLE_CLOUD_ACCESS_TOKEN cenv)
        \<and> (\<forall>req resp. net req = Inr resp \<longrightarrow> \<not> ok resp)"
  then show "fst (createGoogleCloudVM_p1 vm cenv net) = Inr (mockGCPVM vm pid)"
    using createGoogleCloudVM_endpoint_fails(1) by blast
  from a show "fst (createGoogleCloudVM_fixed vm cenv net) = Inr (mockGCPVM vm pid)"
    using createGoogleCloudVM_endpoint_fails(2) by blast
qed

theorem provisioning_outcomes_witness:
  "status (heap (fst (createRealVM 0 railwayEnv railwayDown ''t1'' (snd (alloc t3VM empty_store)))) 0)
     = Error
   \<and> (\<exists>msg c. runBackend ''railway'' t3VM railwayEnv railwayDown = (Inl msg, c)
          \<and> error (heap (fst (createRealVM 0 railwayEnv railwayDown ''t1''
                                 (snd (alloc t3VM empty_store)))) 0) = Some msg)
   \<and> truthy (RAILWAY_VM_SERVER_URL railwayEnv)
   \<and> (\<exists>msg c. createRailwayVM t3VM railwayEnv railwayDown = (Inl msg, c))
   \<and> \<not> truthy (GOOGLE_CLOUD_PROJECT_ID d1Env)
   \<and> createGoogleCloudVM_p1 e2VM d1Env railwayDown = (Inr (createCloudflareVM_p1 e2VM), [])
   \<and> GOOGLE_CLOUD_PROJECT_ID gcpEnv = Some ''proj'' \<and> truthy (GOOGLE_CLOUD_ACCESS_TOKEN gcpEnv)
   \<and> fst (createGoogleCloudVM_p1 e2VM gcpEnv railwayDown) = Inr (mockGCPVM e2VM ''proj'')
   \<and> fst (createGoogleCloudVM_fixed e2VM gcpEnv railwayDown) = Inr (mockGCPVM e2VM ''proj'')"
proof -
  have e: "status (heap (fst (createRealVM 0 railwayEnv railwayDown ''t1''
              (snd (alloc t3VM empty_store)))) 0) = Error"
    by (simp add: createRealVM_def alloc_def empty_store_def selectDeploymentStrategy_def
        runBackend_def createRailwayVM_def railwayEnv_def railwayDown_def Let_def
        t3VM_def requestedVM_def webBody_def blankVM_def)
  have h: "heap (snd (alloc t3VM empty_store)) 0 = t3VM"
    by (simp add: alloc_def empty_store_def)
  have d: "\<forall>req resp. railwayDown req = Inr resp \<longrightarrow> \<not> ok resp"
    by (simp add: railwayDown_def)
  have r: "truthy (RAILWAY_VM_SERVER_URL railwayEnv)" by (simp add: railwayEnv_def)
  have n: "\<not> truthy (GOOGLE_CLOUD_PROJECT_ID d1Env)" by (simp add: d1Env_def)
  have g: "GOOGLE_CLOUD_PROJECT_ID gcpEnv = Some ''proj''" "truthy (GOOGLE_CLOUD_ACCESS_TOKEN gcpEnv)"
    by (simp_all add: gcpEnv_def)
  show ?thesis
    using provisioning_outcomes [where r = 0 and env = railwayEnv and net = railwayDown
            and now = "''t1''" and s = "snd (alloc t3VM empty_store)" and vm = t3VM]
          provisioning_outcomes [where cenv = d1Env and net = railwayDown and vm = e2VM]
          provisioning_outcomes [where cenv = gcpEnv and net = railwayDown and vm = e2VM
            and pid = "''proj''"]
          e h d r n g t3_railway
    by auto
qed

section \<open>Create followed by get in part_001\<close>

text \<open>
  The variant with the requested id and the D1 table: whatever the table and the
  network do, a create with a name answers 201 with status \<^verbatim>\<open>ready\<close>, and the get on
  the id finds that record.
\<close>

lemma storeVM_p1_fst: "fst (storeVM_p1 r env d1ok st) = storeVM r (fst st)"
  by (cases st) (simp add: storeVM_p1_def)

lemma handleGetVM_p1_present:
  "activeVMs (fst st) vmId = Some r
   \<Longrightarrow> handleGetVM_p1 vmId t1 t2 env okRead okWrite st = (json 200 (VMBody (heap (fst st) r)), st)"
  by (cases st) (simp add: handleGetVM_p1_def getVMFromStorage_p1_def)

lemma create_and_get_part001:
  assumes "truthy (cb_name b)"
  shows "\<exists>vmId st' calls vm.
           handleCreateVM_p1 (Inr b) env net rnd ms t0 t1 okW1 okW2 st
             = (json 201 (CreatedBody vmId Ready), st', calls)
           \<and> handleGetVM_p1 vmId t2 t3 env okRead okWrite st' = (json 200 (VMBody vm), st')
           \<and> vm_id vm = vmId \<and> status vm = Ready"
proof -
  obtain s db where st: "st = (s, db)" by (cases st)
  let ?r = "nextRef s"
  let ?vm = "blankVM\<lparr>vm_id := or_else (cb_vmId b) (generateVMId rnd ms),
                   name := (case cb_name b of None \<Rightarrow> [] | Some n \<Rightarrow> n),
                   status := Initializing,
                   createdAt := t0,
                   instanceType := Some (or_else (cb_instanceType b) ''t3.medium''),
                   serverId := cb_server_id b,
                   serverName := Some (getServerName (cb_server_id b)),
                   region := Some ''global'',
                   createdVia := Some ''cloudflare-workers''\<rparr>"
  let ?s1 = "s\<lparr>heap := (heap s)(?r := ?vm), nextRef := Suc ?r\<rparr>"
  obtain st2 calls where cr: "createRealVM_p1 ?r env net t1 okW1 (?s1, db) = (st2, calls)"
    by (cases "createRealVM_p1 ?r env net t1 okW1 (?s1, db)") auto
  let ?st3 = "storeVM_p1 ?r env okW2 st2"
  have h: "handleCreateVM_p1 (Inr b) env net rnd ms t0 t1 okW1 okW2 st
             = (json 201 (CreatedBody (vm_id (heap (fst ?st3) ?r)) (status (heap (fst ?st3) ?r))),
                ?st3, calls)"
    using assms cr by (simp add: handleCreateVM_p1_def st Let_def alloc_def)
  have hp: "heap (fst ?st3) ?r = heap (fst st2) ?r"
    by (simp add: storeVM_p1_fst)
  have rdy: "status (heap (fst st2) ?r) = Ready"
    using createRealVM_p1_ready [of ?r env net t1 okW1 "(?s1, db)"] cr by simp
  have key: "activeVMs (fst ?st3) (vm_id (heap (fst st2) ?r)) = Some ?r"
    unfolding storeVM_p1_fst by (rule activeVMs_storeVM_id)
  have g: "handleGetVM_p1 (vm_id (heap (fst st2) ?r)) t2 t3 env okRead okWrite ?st3
             = (json 200 (VMBody (heap (fst ?st3) ?r)), ?st3)"
    by (rule handleGetVM_p1_present [OF key])
  from h g hp rdy show ?thesis by auto
qed

end
